theory Spec2Isabelle
  imports Main "HOL-Library.Word"
begin

section \<open>The storage engine behind the bindings\<close>

text \<open>
  The file \<^verbatim>\<open>rocksdb_stubs.c\<close> is binding glue: every entry point checks its handle,
  calls one function of the engine's C interface (\<^verbatim>\<open>rocksdb/c.h\<close>) and turns the
  engine's \<^verbatim>\<open>err\<close> out-parameter into a \<^verbatim>\<open>Failure\<close> exception. The engine itself
  is not part of the repository, so this section models it from the specification: a
  family of key-spaces, a switch for the medium's failure, and the values the engine
  hands out (write batches, snapshots, iterators, option blocks). The entry points
  modelled are those of the build with \<^verbatim>\<open>HAVE_ROCKSDB\<close>; without it every entry point
  is a stub.
\<close>

type_synonym bytes = string

type_synonym keyspace = "bytes \<rightharpoonup> bytes"

text \<open>Modelled from the spec: a column-family handle of the engine names one namespace
  (an independently ordered key-space); the engine's header is not under src/.\<close>

type_synonym rocksdb_column_family_handle_t = nat

text \<open>Modelled from the spec: the default namespace, the one the engine's calls without
  a column-family argument work on.\<close>

definition default_cf :: rocksdb_column_family_handle_t where
  "default_cf = 0"

text \<open>Modelled from the spec: a snapshot is the committed state of every namespace at the
  moment it was taken.\<close>

type_synonym rocksdb_snapshot_t = "rocksdb_column_family_handle_t \<Rightarrow> keyspace"

text \<open>Modelled from the spec: a pending mutation of a batch is a put with its value or a
  delete, each naming a key.\<close>

datatype batch_op = BatchPut bytes bytes | BatchDelete bytes

text \<open>Modelled from the spec: a batch is the ordered sequence of its pending mutations.\<close>

type_synonym rocksdb_writebatch_t = "batch_op list"

text \<open>Modelled from the spec: the compression choices {none, fast, balanced, high-ratio}.\<close>

datatype compression_t =
  rocksdb_no_compression | rocksdb_snappy_compression | rocksdb_lz4_compression
  | rocksdb_zstd_compression

text \<open>Modelled from the spec: the engine's option block, with the settings the bindings
  touch (creation flags, compression, the bits per key of the bloom filter).\<close>

record rocksdb_options_t =
  create_if_missing :: bool
  create_missing_column_families :: bool
  compression :: compression_t
  bloom_bits_per_key :: "nat option"

text \<open>Modelled from the spec: read options carry the snapshot a read is made through, if
  any; a read without one sees the latest committed state.\<close>

record rocksdb_readoptions_t =
  ro_snapshot :: "rocksdb_snapshot_t option"

text \<open>Modelled from the spec: write options carry the durability flag.\<close>

record rocksdb_writeoptions_t =
  wo_sync :: bool

text \<open>Modelled from the spec: one open store of the engine: the committed contents of each
  namespace, the names of the column families it holds, its statistics by property name,
  and the failure (disk full, corruption, permission) the medium currently answers to
  every fallible call, if any.\<close>

record rocksdb_t =
  contents :: "rocksdb_column_family_handle_t \<Rightarrow> keyspace"
  families :: "string list"
  props :: "string \<rightharpoonup> string"
  io_error :: "string option"

text \<open>Modelled from the spec: the engine's cursor as its three observers report it:
  whether it is positioned on an entry, and the key and value buffers it exposes.\<close>

record rocksdb_iterator_t =
  it_valid :: bool
  it_key :: bytes
  it_value :: bytes

text \<open>Modelled from the spec: option blocks start with nothing set; absence of a
  compression choice means no compression.\<close>

definition rocksdb_options_create :: rocksdb_options_t where
  "rocksdb_options_create =
     \<lparr>create_if_missing = False, create_missing_column_families = False,
      compression = rocksdb_no_compression, bloom_bits_per_key = None\<rparr>"

text \<open>Modelled from the spec: fresh read options are bound to no snapshot.\<close>

definition rocksdb_readoptions_create :: rocksdb_readoptions_t where
  "rocksdb_readoptions_create = \<lparr>ro_snapshot = None\<rparr>"

text \<open>Modelled from the spec: fresh write options use the default durability.\<close>

definition rocksdb_writeoptions_create :: rocksdb_writeoptions_t where
  "rocksdb_writeoptions_create = \<lparr>wo_sync = False\<rparr>"

text \<open>Modelled from the spec: the state a read sees: the snapshot of its read options, or
  the latest committed contents.\<close>

definition visible :: "rocksdb_t \<Rightarrow> rocksdb_readoptions_t \<Rightarrow> rocksdb_snapshot_t" where
  "visible d ro = (case ro_snapshot ro of None \<Rightarrow> contents d | Some s \<Rightarrow> s)"

text \<open>Modelled from the spec: put into a namespace is an upsert; a backend failure is
  reported through the error result and changes nothing.\<close>

definition rocksdb_put_cf ::
  "rocksdb_t \<Rightarrow> rocksdb_writeoptions_t \<Rightarrow> rocksdb_column_family_handle_t \<Rightarrow> bytes \<Rightarrow> bytes
     \<Rightarrow> rocksdb_t \<times> string option" where
  "rocksdb_put_cf d wo h k v =
     (case io_error d of
        Some e \<Rightarrow> (d, Some e)
      | None \<Rightarrow> (d\<lparr>contents := (contents d)(h := (contents d h)(k \<mapsto> v))\<rparr>, None))"

text \<open>Modelled from the spec: the put without a namespace works on the default one.\<close>

definition rocksdb_put ::
  "rocksdb_t \<Rightarrow> rocksdb_writeoptions_t \<Rightarrow> bytes \<Rightarrow> bytes \<Rightarrow> rocksdb_t \<times> string option" where
  "rocksdb_put d wo k v = rocksdb_put_cf d wo default_cf k v"

text \<open>Modelled from the spec: get from a namespace returns the value or nothing (a null
  pointer); a backend failure returns nothing and sets the error.\<close>

definition rocksdb_get_cf ::
  "rocksdb_t \<Rightarrow> rocksdb_readoptions_t \<Rightarrow> rocksdb_column_family_handle_t \<Rightarrow> bytes
     \<Rightarrow> bytes option \<times> string option" where
  "rocksdb_get_cf d ro h k =
     (case io_error d of
        Some e \<Rightarrow> (None, Some e)
      | None \<Rightarrow> (visible d ro h k, None))"

text \<open>Modelled from the spec: the get without a namespace reads the default one.\<close>

definition rocksdb_get ::
  "rocksdb_t \<Rightarrow> rocksdb_readoptions_t \<Rightarrow> bytes \<Rightarrow> bytes option \<times> string option" where
  "rocksdb_get d ro k = rocksdb_get_cf d ro default_cf k"

text \<open>Modelled from the spec: delete removes the key if present; deleting an absent key is
  not an error.\<close>

definition rocksdb_delete_cf ::
  "rocksdb_t \<Rightarrow> rocksdb_writeoptions_t \<Rightarrow> rocksdb_column_family_handle_t \<Rightarrow> bytes
     \<Rightarrow> rocksdb_t \<times> string option" where
  "rocksdb_delete_cf d wo h k =
     (case io_error d of
        Some e \<Rightarrow> (d, Some e)
      | None \<Rightarrow> (d\<lparr>contents := (contents d)(h := (contents d h)(k := None))\<rparr>, None))"

text \<open>Modelled from the spec: the delete without a namespace works on the default one.\<close>

definition rocksdb_delete ::
  "rocksdb_t \<Rightarrow> rocksdb_writeoptions_t \<Rightarrow> bytes \<Rightarrow> rocksdb_t \<times> string option" where
  "rocksdb_delete d wo k = rocksdb_delete_cf d wo default_cf k"

text \<open>Modelled from the spec: a new batch is empty.\<close>

definition rocksdb_writebatch_create :: rocksdb_writebatch_t where
  "rocksdb_writebatch_create = []"

text \<open>Modelled from the spec: a batch put appends to the pending sequence.\<close>

definition rocksdb_writebatch_put ::
  "rocksdb_writebatch_t \<Rightarrow> bytes \<Rightarrow> bytes \<Rightarrow> rocksdb_writebatch_t" where
  "rocksdb_writebatch_put b k v = b @ [BatchPut k v]"

text \<open>Modelled from the spec: a batch delete appends to the pending sequence.\<close>

definition rocksdb_writebatch_delete :: "rocksdb_writebatch_t \<Rightarrow> bytes \<Rightarrow> rocksdb_writebatch_t" where
  "rocksdb_writebatch_delete b k = b @ [BatchDelete k]"

text \<open>Modelled from the spec: clearing a batch discards all pending operations.\<close>

definition rocksdb_writebatch_clear :: "rocksdb_writebatch_t \<Rightarrow> rocksdb_writebatch_t" where
  "rocksdb_writebatch_clear b = []"

text \<open>Modelled from the spec: one pending mutation applied to a key-space.\<close>

fun apply_op :: "keyspace \<Rightarrow> batch_op \<Rightarrow> keyspace" where
  "apply_op m (BatchPut k v) = m(k \<mapsto> v)"
| "apply_op m (BatchDelete k) = m(k := None)"

text \<open>Modelled from the spec: committing a batch applies its mutations to the default
  namespace in the order they were added, all or nothing: on a backend failure the error
  is set and no mutation is applied.\<close>

definition rocksdb_write ::
  "rocksdb_t \<Rightarrow> rocksdb_writeoptions_t \<Rightarrow> rocksdb_writebatch_t \<Rightarrow> rocksdb_t \<times> string option" where
  "rocksdb_write d wo b =
     (case io_error d of
        Some e \<Rightarrow> (d, Some e)
      | None \<Rightarrow>
          (d\<lparr>contents := (contents d)(default_cf := foldl apply_op (contents d default_cf) b)\<rparr>,
           None))"

text \<open>Modelled from the spec: a snapshot captures the current committed state.\<close>

definition rocksdb_create_snapshot :: "rocksdb_t \<Rightarrow> rocksdb_snapshot_t" where
  "rocksdb_create_snapshot d = contents d"

text \<open>Modelled from the spec: an iterator is created positioned nowhere.\<close>

definition rocksdb_create_iterator_cf ::
  "rocksdb_t \<Rightarrow> rocksdb_readoptions_t \<Rightarrow> rocksdb_column_family_handle_t \<Rightarrow> rocksdb_iterator_t" where
  "rocksdb_create_iterator_cf d ro h = \<lparr>it_valid = False, it_key = [], it_value = []\<rparr>"

text \<open>Modelled from the spec: the iterator without a namespace ranges over the default one.\<close>

definition rocksdb_create_iterator :: "rocksdb_t \<Rightarrow> rocksdb_readoptions_t \<Rightarrow> rocksdb_iterator_t" where
  "rocksdb_create_iterator d ro = rocksdb_create_iterator_cf d ro default_cf"

text \<open>Modelled from the spec: whether the cursor is positioned on an existing entry.\<close>

definition rocksdb_iter_valid :: "rocksdb_iterator_t \<Rightarrow> bool" where
  "rocksdb_iter_valid i = it_valid i"

text \<open>Modelled from the spec: the key buffer of the cursor and its length; the engine
  checks nothing here, so on a cursor that is not positioned this is whatever the buffer
  holds.\<close>

definition rocksdb_iter_key :: "rocksdb_iterator_t \<Rightarrow> bytes \<times> nat" where
  "rocksdb_iter_key i = (it_key i, length (it_key i))"

text \<open>Modelled from the spec: the value buffer of the cursor and its length, unchecked
  like the key.\<close>

definition rocksdb_iter_value :: "rocksdb_iterator_t \<Rightarrow> bytes \<times> nat" where
  "rocksdb_iter_value i = (it_value i, length (it_value i))"

text \<open>Modelled from the spec: statistics by name; an unknown name yields no value.\<close>

definition rocksdb_property_value :: "rocksdb_t \<Rightarrow> string \<Rightarrow> string option" where
  "rocksdb_property_value d name = props d name"

text \<open>Modelled from the spec: compaction has no effect on the logical contents.\<close>

definition rocksdb_compact_range_cf ::
  "rocksdb_t \<Rightarrow> rocksdb_column_family_handle_t \<Rightarrow> rocksdb_t" where
  "rocksdb_compact_range_cf d h = d"

text \<open>Modelled from the spec: compaction of the default namespace, equally without
  logical effect.\<close>

definition rocksdb_compact_range :: "rocksdb_t \<Rightarrow> rocksdb_t" where
  "rocksdb_compact_range d = rocksdb_compact_range_cf d default_cf"

text \<open>Modelled from the spec: flush forces buffered writes to the medium and fails when
  the medium rejects the write; the logical contents stay as they are.\<close>

definition rocksdb_flush :: "rocksdb_t \<Rightarrow> rocksdb_t \<times> string option" where
  "rocksdb_flush d = (d, io_error d)"


section \<open>The wrappers of the bindings\<close>

text \<open>
  Each OCaml value of the bindings is a custom block holding one pointer to a wrapper
  allocated with \<^verbatim>\<open>malloc\<close>. The pointer is \<^verbatim>\<open>NULL\<close> once the resource has been closed,
  destroyed or released, so a handle is an optional wrapper, and the pointers inside a
  wrapper are optional too. An entry point takes the handle and, where it changes the
  wrapper or the store behind it, returns the handle as it is afterwards. An entry point
  that raises \<^verbatim>\<open>Failure\<close> through \<^verbatim>\<open>caml_failwith\<close> returns the message on the left.
\<close>

text \<open>The struct \<^verbatim>\<open>rocksdb_wrapper\<close>. The array of column-family handles (of
  \<^verbatim>\<open>MAX_COLUMN_FAMILIES\<close> = 16 slots, of which open registers 8) is a function of the
  slot; the count \<^verbatim>\<open>n_cf\<close> is a C \<^verbatim>\<open>int\<close>, only ever compared.\<close>

record rocksdb_wrapper =
  db :: rocksdb_t
  options :: rocksdb_options_t
  write_options :: rocksdb_writeoptions_t
  read_options :: rocksdb_readoptions_t
  cf_handles :: "nat \<Rightarrow> rocksdb_column_family_handle_t option"
  n_cf :: int
  path :: string
  is_open :: bool

text \<open>The struct \<^verbatim>\<open>rocksdb_batch_wrapper\<close>; the counter is a 32-bit C \<^verbatim>\<open>int\<close>.\<close>

record rocksdb_batch_wrapper =
  batch :: "rocksdb_writebatch_t option"
  n_ops :: "32 word"

text \<open>The struct \<^verbatim>\<open>rocksdb_iter_wrapper\<close>.\<close>

record rocksdb_iter_wrapper =
  iter :: "rocksdb_iterator_t option"
  cf_index :: int

text \<open>The struct \<^verbatim>\<open>rocksdb_snapshot_wrapper\<close>. The pointer to the parent database is
  kept as the wrapper it pointed to when the snapshot was taken; the bindings only test
  it against \<^verbatim>\<open>NULL\<close> and pass its engine handle to the release call.\<close>

record rocksdb_snapshot_wrapper =
  snapshot :: "rocksdb_snapshot_t option"
  db_wrapper :: "rocksdb_wrapper option"

type_synonym db_val = "rocksdb_wrapper option"
type_synonym batch_val = "rocksdb_batch_wrapper option"
type_synonym iter_val = "rocksdb_iter_wrapper option"
type_synonym snapshot_val = "rocksdb_snapshot_wrapper option"

text \<open>The message buffers are \<^verbatim>\<open>char msg[256]\<close> filled by \<^verbatim>\<open>snprintf\<close>, which keeps the
  first 255 characters of the formatted text.\<close>

definition snprintf_msg :: "string \<Rightarrow> string \<Rightarrow> string" where
  "snprintf_msg prefix err = take 255 (prefix @ err)"

text \<open>The macro \<^verbatim>\<open>Int_val\<close> of the OCaml runtime (\<^verbatim>\<open>caml/mlvalues.h\<close>, not under src/): the
  C \<^verbatim>\<open>int\<close> of an OCaml integer. The cast keeps the low 32 bits and reads them as a signed
  number, so an integer that fits a C \<^verbatim>\<open>int\<close> is unchanged and any other is narrowed.\<close>

definition Int_val :: "int \<Rightarrow> int" where
  "Int_val x = sint (word_of_int x :: 32 word)"

text \<open>The C string that \<^verbatim>\<open>String_val\<close> denotes where the bindings pass it without its
  length: the bytes of the OCaml string up to its first NUL byte.\<close>

definition c_string :: "string \<Rightarrow> string" where
  "c_string s = takeWhile (\<lambda>c. c \<noteq> CHR 0x00) s"

section \<open>Basic operations\<close>

text \<open>The function \<^verbatim>\<open>caml_rocksdb_is_open\<close>.\<close>

definition caml_rocksdb_is_open :: "db_val \<Rightarrow> bool" where
  "caml_rocksdb_is_open dbv =
     (case dbv of None \<Rightarrow> False | Some wrapper \<Rightarrow> is_open wrapper)"

text \<open>The function \<^verbatim>\<open>caml_rocksdb_close\<close>: on an open handle it releases everything and
  stores \<^verbatim>\<open>NULL\<close> in the block; on any other handle it does nothing.\<close>

definition caml_rocksdb_close :: "db_val \<Rightarrow> (string + unit) \<times> db_val" where
  "caml_rocksdb_close dbv =
     (case dbv of
        None \<Rightarrow> (Inr (), dbv)
      | Some wrapper \<Rightarrow> if is_open wrapper then (Inr (), None) else (Inr (), dbv))"

text \<open>The function \<^verbatim>\<open>caml_rocksdb_put\<close>. The namespace index arrives as an OCaml
  integer and is narrowed by \<^verbatim>\<open>Int_val\<close> before the range test.\<close>

definition caml_rocksdb_put ::
  "db_val \<Rightarrow> int \<Rightarrow> bytes \<Rightarrow> bytes \<Rightarrow> (string + unit) \<times> db_val" where
  "caml_rocksdb_put dbv cf_indexv key val =
     (case dbv of
        None \<Rightarrow> (Inl ''rocksdb_put: database not open'', dbv)
      | Some wrapper \<Rightarrow>
          if \<not> is_open wrapper then (Inl ''rocksdb_put: database not open'', dbv)
          else
            let cf_idx = Int_val cf_indexv;
                (d, err) =
              (if cf_idx > 0 \<and> cf_idx < n_cf wrapper \<and> cf_handles wrapper (nat cf_idx) \<noteq> None
               then rocksdb_put_cf (db wrapper) (write_options wrapper)
                      (the (cf_handles wrapper (nat cf_idx))) key val
               else rocksdb_put (db wrapper) (write_options wrapper) key val)
            in (case err of
                  Some e \<Rightarrow>
                    (Inl (snprintf_msg ''rocksdb_put failed: '' e), Some (wrapper\<lparr>db := d\<rparr>))
                | None \<Rightarrow> (Inr (), Some (wrapper\<lparr>db := d\<rparr>))))"

text \<open>The function \<^verbatim>\<open>caml_rocksdb_get\<close>: the result is the OCaml option of the value.\<close>

definition caml_rocksdb_get :: "db_val \<Rightarrow> int \<Rightarrow> bytes \<Rightarrow> string + bytes option" where
  "caml_rocksdb_get dbv cf_indexv key =
     (case dbv of
        None \<Rightarrow> Inl ''rocksdb_get: database not open''
      | Some wrapper \<Rightarrow>
          if \<not> is_open wrapper then Inl ''rocksdb_get: database not open''
          else
            let cf_idx = Int_val cf_indexv;
                (val, err) =
              (if cf_idx > 0 \<and> cf_idx < n_cf wrapper \<and> cf_handles wrapper (nat cf_idx) \<noteq> None
               then rocksdb_get_cf (db wrapper) (read_options wrapper)
                      (the (cf_handles wrapper (nat cf_idx))) key
               else rocksdb_get (db wrapper) (read_options wrapper) key)
            in (case err of
                  Some e \<Rightarrow> Inl (snprintf_msg ''rocksdb_get failed: '' e)
                | None \<Rightarrow> (case val of None \<Rightarrow> Inr None | Some v \<Rightarrow> Inr (Some v))))"

text \<open>The function \<^verbatim>\<open>caml_rocksdb_delete\<close>.\<close>

definition caml_rocksdb_delete :: "db_val \<Rightarrow> int \<Rightarrow> bytes \<Rightarrow> (string + unit) \<times> db_val" where
  "caml_rocksdb_delete dbv cf_indexv key =
     (case dbv of
        None \<Rightarrow> (Inl ''rocksdb_delete: database not open'', dbv)
      | Some wrapper \<Rightarrow>
          if \<not> is_open wrapper then (Inl ''rocksdb_delete: database not open'', dbv)
          else
            let cf_idx = Int_val cf_indexv;
                (d, err) =
              (if cf_idx > 0 \<and> cf_idx < n_cf wrapper \<and> cf_handles wrapper (nat cf_idx) \<noteq> None
               then rocksdb_delete_cf (db wrapper) (write_options wrapper)
                      (the (cf_handles wrapper (nat cf_idx))) key
               else rocksdb_delete (db wrapper) (write_options wrapper) key)
            in (case err of
                  Some e \<Rightarrow>
                    (Inl (snprintf_msg ''rocksdb_delete failed: '' e), Some (wrapper\<lparr>db := d\<rparr>))
                | None \<Rightarrow> (Inr (), Some (wrapper\<lparr>db := d\<rparr>))))"

text \<open>The function \<^verbatim>\<open>caml_rocksdb_exists\<close>: a lookup error is freed and answered with
  false.\<close>

definition caml_rocksdb_exists :: "db_val \<Rightarrow> int \<Rightarrow> bytes \<Rightarrow> string + bool" where
  "caml_rocksdb_exists dbv cf_indexv key =
     (case dbv of
        None \<Rightarrow> Inl ''rocksdb_exists: database not open''
      | Some wrapper \<Rightarrow>
          if \<not> is_open wrapper then Inl ''rocksdb_exists: database not open''
          else
            let cf_idx = Int_val cf_indexv;
                (val, err) =
              (if cf_idx > 0 \<and> cf_idx < n_cf wrapper \<and> cf_handles wrapper (nat cf_idx) \<noteq> None
               then rocksdb_get_cf (db wrapper) (read_options wrapper)
                      (the (cf_handles wrapper (nat cf_idx))) key
               else rocksdb_get (db wrapper) (read_options wrapper) key)
            in (case err of
                  Some e \<Rightarrow> Inr False
                | None \<Rightarrow> Inr (val \<noteq> None)))"


section \<open>Batch operations\<close>

text \<open>The function \<^verbatim>\<open>caml_rocksdb_batch_create\<close>; the argument says whether \<^verbatim>\<open>malloc\<close>
  returned a block.\<close>

definition caml_rocksdb_batch_create :: "bool \<Rightarrow> string + batch_val" where
  "caml_rocksdb_batch_create malloc_ok =
     (if \<not> malloc_ok then Inl ''rocksdb_batch_create: failed to allocate wrapper''
      else Inr (Some \<lparr>batch = Some rocksdb_writebatch_create, n_ops = 0\<rparr>))"

text \<open>The function \<^verbatim>\<open>caml_rocksdb_batch_put\<close>; \<^verbatim>\<open>n_ops++\<close> is the addition of the
  32-bit word.\<close>

definition caml_rocksdb_batch_put ::
  "batch_val \<Rightarrow> bytes \<Rightarrow> bytes \<Rightarrow> (string + unit) \<times> batch_val" where
  "caml_rocksdb_batch_put batchv key val =
     (case batchv of
        None \<Rightarrow> (Inl ''rocksdb_batch_put: invalid batch'', batchv)
      | Some wrapper \<Rightarrow>
          (case batch wrapper of
             None \<Rightarrow> (Inl ''rocksdb_batch_put: invalid batch'', batchv)
           | Some b \<Rightarrow>
               (Inr (),
                Some (wrapper\<lparr>batch := Some (rocksdb_writebatch_put b key val),
                               n_ops := n_ops wrapper + 1\<rparr>))))"

text \<open>The function \<^verbatim>\<open>caml_rocksdb_batch_delete\<close>.\<close>

definition caml_rocksdb_batch_delete :: "batch_val \<Rightarrow> bytes \<Rightarrow> (string + unit) \<times> batch_val" where
  "caml_rocksdb_batch_delete batchv key =
     (case batchv of
        None \<Rightarrow> (Inl ''rocksdb_batch_delete: invalid batch'', batchv)
      | Some wrapper \<Rightarrow>
          (case batch wrapper of
             None \<Rightarrow> (Inl ''rocksdb_batch_delete: invalid batch'', batchv)
           | Some b \<Rightarrow>
               (Inr (),
                Some (wrapper\<lparr>batch := Some (rocksdb_writebatch_delete b key),
                               n_ops := n_ops wrapper + 1\<rparr>))))"

text \<open>The function \<^verbatim>\<open>caml_rocksdb_batch_clear\<close>.\<close>

definition caml_rocksdb_batch_clear :: "batch_val \<Rightarrow> (string + unit) \<times> batch_val" where
  "caml_rocksdb_batch_clear batchv =
     (case batchv of
        None \<Rightarrow> (Inl ''rocksdb_batch_clear: invalid batch'', batchv)
      | Some wrapper \<Rightarrow>
          (case batch wrapper of
             None \<Rightarrow> (Inl ''rocksdb_batch_clear: invalid batch'', batchv)
           | Some b \<Rightarrow>
               (Inr (),
                Some (wrapper\<lparr>batch := Some (rocksdb_writebatch_clear b), n_ops := 0\<rparr>))))"

text \<open>The function \<^verbatim>\<open>caml_rocksdb_batch_count\<close>: \<^verbatim>\<open>Val_int\<close> of the signed counter, and
  0 for a null wrapper.\<close>

definition caml_rocksdb_batch_count :: "batch_val \<Rightarrow> int" where
  "caml_rocksdb_batch_count batchv =
     (case batchv of None \<Rightarrow> 0 | Some wrapper \<Rightarrow> sint (n_ops wrapper))"

text \<open>The function \<^verbatim>\<open>caml_rocksdb_batch_write\<close>: the database is checked before the
  batch.\<close>

definition caml_rocksdb_batch_write :: "db_val \<Rightarrow> batch_val \<Rightarrow> (string + unit) \<times> db_val" where
  "caml_rocksdb_batch_write dbv batchv =
     (case dbv of
        None \<Rightarrow> (Inl ''rocksdb_batch_write: database not open'', dbv)
      | Some db_wrapper' \<Rightarrow>
          if \<not> is_open db_wrapper' then (Inl ''rocksdb_batch_write: database not open'', dbv)
          else
            (case batchv of
               None \<Rightarrow> (Inl ''rocksdb_batch_write: invalid batch'', dbv)
             | Some batch_wrapper \<Rightarrow>
                 (case batch batch_wrapper of
                    None \<Rightarrow> (Inl ''rocksdb_batch_write: invalid batch'', dbv)
                  | Some b \<Rightarrow>
                      let (d, err) = rocksdb_write (db db_wrapper') (write_options db_wrapper') b
                      in (case err of
                            Some e \<Rightarrow>
                              (Inl (snprintf_msg ''rocksdb_batch_write failed: '' e),
                               Some (db_wrapper'\<lparr>db := d\<rparr>))
                          | None \<Rightarrow> (Inr (), Some (db_wrapper'\<lparr>db := d\<rparr>))))))"

text \<open>The function \<^verbatim>\<open>caml_rocksdb_batch_destroy\<close>: it never raises; a non-null wrapper
  is freed and the block set to \<^verbatim>\<open>NULL\<close>.\<close>

definition caml_rocksdb_batch_destroy :: "batch_val \<Rightarrow> (string + unit) \<times> batch_val" where
  "caml_rocksdb_batch_destroy batchv =
     (case batchv of None \<Rightarrow> (Inr (), batchv) | Some wrapper \<Rightarrow> (Inr (), None))"

section \<open>Iterator operations\<close>

text \<open>The function \<^verbatim>\<open>caml_rocksdb_iter_create\<close>; the first argument says whether
  \<^verbatim>\<open>malloc\<close> returned a block.\<close>

definition caml_rocksdb_iter_create :: "bool \<Rightarrow> db_val \<Rightarrow> int \<Rightarrow> string + iter_val" where
  "caml_rocksdb_iter_create malloc_ok dbv cf_indexv =
     (case dbv of
        None \<Rightarrow> Inl ''rocksdb_iter_create: database not open''
      | Some wrapper \<Rightarrow>
          if \<not> is_open wrapper then Inl ''rocksdb_iter_create: database not open''
          else
            let cf_idx = Int_val cf_indexv;
                i =
              (if cf_idx > 0 \<and> cf_idx < n_cf wrapper \<and> cf_handles wrapper (nat cf_idx) \<noteq> None
               then rocksdb_create_iterator_cf (db wrapper) (read_options wrapper)
                      (the (cf_handles wrapper (nat cf_idx)))
               else rocksdb_create_iterator (db wrapper) (read_options wrapper))
            in if \<not> malloc_ok then Inl ''rocksdb_iter_create: failed to allocate wrapper''
               else Inr (Some \<lparr>iter = Some i, cf_index = cf_idx\<rparr>))"

text \<open>The function \<^verbatim>\<open>caml_rocksdb_iter_valid\<close>.\<close>

definition caml_rocksdb_iter_valid :: "iter_val \<Rightarrow> bool" where
  "caml_rocksdb_iter_valid iterv =
     (case iterv of
        None \<Rightarrow> False
      | Some wrapper \<Rightarrow>
          (case iter wrapper of None \<Rightarrow> False | Some i \<Rightarrow> rocksdb_iter_valid i))"

text \<open>The function \<^verbatim>\<open>caml_rocksdb_iter_key\<close>: after the null checks it copies
  \<^verbatim>\<open>key_len\<close> bytes of what the engine's accessor returned.\<close>

definition caml_rocksdb_iter_key :: "iter_val \<Rightarrow> string + bytes" where
  "caml_rocksdb_iter_key iterv =
     (case iterv of
        None \<Rightarrow> Inl ''rocksdb_iter_key: invalid iterator''
      | Some wrapper \<Rightarrow>
          (case iter wrapper of
             None \<Rightarrow> Inl ''rocksdb_iter_key: invalid iterator''
           | Some i \<Rightarrow> let (key, key_len) = rocksdb_iter_key i in Inr (take key_len key)))"

text \<open>The function \<^verbatim>\<open>caml_rocksdb_iter_value\<close>.\<close>

definition caml_rocksdb_iter_value :: "iter_val \<Rightarrow> string + bytes" where
  "caml_rocksdb_iter_value iterv =
     (case iterv of
        None \<Rightarrow> Inl ''rocksdb_iter_value: invalid iterator''
      | Some wrapper \<Rightarrow>
          (case iter wrapper of
             None \<Rightarrow> Inl ''rocksdb_iter_value: invalid iterator''
           | Some i \<Rightarrow> let (val, val_len) = rocksdb_iter_value i in Inr (take val_len val)))"

text \<open>The function \<^verbatim>\<open>caml_rocksdb_iter_destroy\<close>.\<close>

definition caml_rocksdb_iter_destroy :: "iter_val \<Rightarrow> (string + unit) \<times> iter_val" where
  "caml_rocksdb_iter_destroy iterv =
     (case iterv of None \<Rightarrow> (Inr (), iterv) | Some wrapper \<Rightarrow> (Inr (), None))"

section \<open>Snapshot operations\<close>

text \<open>The function \<^verbatim>\<open>caml_rocksdb_snapshot_create\<close>; the first argument says whether
  \<^verbatim>\<open>malloc\<close> returned a block.\<close>

definition caml_rocksdb_snapshot_create :: "bool \<Rightarrow> db_val \<Rightarrow> string + snapshot_val" where
  "caml_rocksdb_snapshot_create malloc_ok dbv =
     (case dbv of
        None \<Rightarrow> Inl ''rocksdb_snapshot_create: database not open''
      | Some wrapper \<Rightarrow>
          if \<not> is_open wrapper then Inl ''rocksdb_snapshot_create: database not open''
          else
            let s = rocksdb_create_snapshot (db wrapper)
            in if \<not> malloc_ok then Inl ''rocksdb_snapshot_create: failed to allocate wrapper''
               else Inr (Some \<lparr>snapshot = Some s, db_wrapper = Some wrapper\<rparr>))"

text \<open>The function \<^verbatim>\<open>caml_rocksdb_snapshot_release\<close>: it never raises; only a wrapper
  with a live snapshot and a parent is released and the block set to \<^verbatim>\<open>NULL\<close>.\<close>

definition caml_rocksdb_snapshot_release :: "snapshot_val \<Rightarrow> (string + unit) \<times> snapshot_val" where
  "caml_rocksdb_snapshot_release snapshotv =
     (case snapshotv of
        None \<Rightarrow> (Inr (), snapshotv)
      | Some wrapper \<Rightarrow>
          if snapshot wrapper \<noteq> None \<and> db_wrapper wrapper \<noteq> None then (Inr (), None)
          else (Inr (), snapshotv))"

section \<open>Statistics and utilities\<close>

text \<open>The function \<^verbatim>\<open>caml_rocksdb_get_property\<close>; the property name is passed as a C
  string.\<close>

definition caml_rocksdb_get_property :: "db_val \<Rightarrow> string \<Rightarrow> string + string option" where
  "caml_rocksdb_get_property dbv property =
     (case dbv of
        None \<Rightarrow> Inl ''rocksdb_get_property: database not open''
      | Some wrapper \<Rightarrow>
          if \<not> is_open wrapper then Inl ''rocksdb_get_property: database not open''
          else
            (case rocksdb_property_value (db wrapper) (c_string property) of
               None \<Rightarrow> Inr None
             | Some val \<Rightarrow> Inr (Some val)))"

text \<open>The function \<^verbatim>\<open>caml_rocksdb_compact_range\<close>.\<close>

definition caml_rocksdb_compact_range :: "db_val \<Rightarrow> int \<Rightarrow> (string + unit) \<times> db_val" where
  "caml_rocksdb_compact_range dbv cf_indexv =
     (case dbv of
        None \<Rightarrow> (Inl ''rocksdb_compact_range: database not open'', dbv)
      | Some wrapper \<Rightarrow>
          if \<not> is_open wrapper then (Inl ''rocksdb_compact_range: database not open'', dbv)
          else
            let cf_idx = Int_val cf_indexv;
                d =
              (if cf_idx > 0 \<and> cf_idx < n_cf wrapper \<and> cf_handles wrapper (nat cf_idx) \<noteq> None
               then rocksdb_compact_range_cf (db wrapper) (the (cf_handles wrapper (nat cf_idx)))
               else rocksdb_compact_range (db wrapper))
            in (Inr (), Some (wrapper\<lparr>db := d\<rparr>)))"

text \<open>The function \<^verbatim>\<open>caml_rocksdb_flush\<close>; its flush options always ask to wait.\<close>

definition caml_rocksdb_flush :: "db_val \<Rightarrow> (string + unit) \<times> db_val" where
  "caml_rocksdb_flush dbv =
     (case dbv of
        None \<Rightarrow> (Inl ''rocksdb_flush: database not open'', dbv)
      | Some wrapper \<Rightarrow>
          if \<not> is_open wrapper then (Inl ''rocksdb_flush: database not open'', dbv)
          else
            let (d, err) = rocksdb_flush (db wrapper)
            in (case err of
                  Some e \<Rightarrow>
                    (Inl (snprintf_msg ''rocksdb_flush failed: '' e), Some (wrapper\<lparr>db := d\<rparr>))
                | None \<Rightarrow> (Inr (), Some (wrapper\<lparr>db := d\<rparr>))))"


section \<open>Database management\<close>

text \<open>
  What \<^verbatim>\<open>caml_rocksdb_open\<close> finds depends on the filesystem and on the engine, neither
  of which the bindings control. The three engine calls it makes, and the allocation of
  its wrapper, are therefore taken as parameters: an environment gives the answer of each
  call for its arguments. A failing call answers with its error text.
\<close>

record rocksdb_env =
  rocksdb_open_column_families ::
    "rocksdb_options_t \<Rightarrow> string \<Rightarrow> int \<Rightarrow> string list \<Rightarrow> rocksdb_options_t list
       \<Rightarrow> string + rocksdb_t \<times> (nat \<Rightarrow> rocksdb_column_family_handle_t option)"
  rocksdb_open :: "rocksdb_options_t \<Rightarrow> string \<Rightarrow> string + rocksdb_t"
  rocksdb_create_column_family ::
    "rocksdb_t \<Rightarrow> rocksdb_options_t \<Rightarrow> string
       \<Rightarrow> rocksdb_t \<times> rocksdb_column_family_handle_t option \<times> string option"
  malloc_ok :: bool

text \<open>The array \<^verbatim>\<open>cf_names\<close> of \<^verbatim>\<open>caml_rocksdb_open\<close>: the macros \<^verbatim>\<open>CF_DEFAULT\<close> to
  \<^verbatim>\<open>CF_METADATA\<close>.\<close>

definition cf_names :: "string list" where
  "cf_names =
     [''default'', ''nodes'', ''links'', ''incoming'',
      ''outgoing'', ''attention'', ''truth_values'', ''metadata'']"

text \<open>The loop of the fallback path, \<^verbatim>\<open>for (int i = 1; i < n_cf; i++)\<close>, over the names
  it visits: each name is created in turn, the handle is stored, and an error of the
  creation is freed and forgotten.\<close>

fun create_column_families ::
  "rocksdb_env \<Rightarrow> rocksdb_t \<Rightarrow> rocksdb_options_t \<Rightarrow> string list
     \<Rightarrow> rocksdb_t \<times> rocksdb_column_family_handle_t option list" where
  "create_column_families env d opts [] = (d, [])"
| "create_column_families env d opts (name # names) =
     (let (d', h, err) = rocksdb_create_column_family env d opts name;
          (d'', hs) = create_column_families env d' opts names
      in (d'', h # hs))"

text \<open>The first steps of \<^verbatim>\<open>caml_rocksdb_open\<close>, up to the bloom filter: the option
  block it passes to the engine, built from the flag and the compression number, which
  \<^verbatim>\<open>Int_val\<close> narrows first.\<close>

definition open_options :: "bool \<Rightarrow> int \<Rightarrow> rocksdb_options_t" where
  "open_options cim compressionv =
     (let comp_type = Int_val compressionv;
          opts0 = rocksdb_options_create
                    \<lparr>create_if_missing := cim, create_missing_column_families := True\<rparr>;
          opts1 = (if comp_type = 1 then opts0\<lparr>compression := rocksdb_snappy_compression\<rparr>
                   else if comp_type = 2 then opts0\<lparr>compression := rocksdb_lz4_compression\<rparr>
                   else if comp_type = 3 then opts0\<lparr>compression := rocksdb_zstd_compression\<rparr>
                   else opts0)
      in opts1\<lparr>bloom_bits_per_key := Some 10\<rparr>)"

text \<open>The rest of \<^verbatim>\<open>caml_rocksdb_open\<close>. The path is used and stored as a C string.
  Slots of the wrapper's array at or beyond \<^verbatim>\<open>n_cf\<close> are never written and never read;
  they are shown as null.\<close>

definition caml_rocksdb_open :: "rocksdb_env \<Rightarrow> string \<Rightarrow> bool \<Rightarrow> int \<Rightarrow> string + db_val" where
  "caml_rocksdb_open env pathv cim compressionv =
     (let db_path = c_string pathv;
          opts = open_options cim compressionv;
          n = (8 :: int);
          cf_options = replicate (nat n) rocksdb_options_create;
          opened =
            (case rocksdb_open_column_families env opts db_path n cf_names cf_options of
               Inr (d, handles) \<Rightarrow> Inr (d, handles)
             | Inl err1 \<Rightarrow>
                 (case rocksdb_open env opts db_path of
                    Inl err2 \<Rightarrow> Inl (snprintf_msg ''rocksdb_open failed: '' err2)
                  | Inr d \<Rightarrow>
                      let (d', hs) = create_column_families env d opts (drop 1 cf_names)
                      in Inr (d', \<lambda>i. (None # hs) ! i)))
      in case opened of
           Inl msg \<Rightarrow> Inl msg
         | Inr (d, handles) \<Rightarrow>
             if \<not> malloc_ok env then Inl ''rocksdb_open: failed to allocate wrapper''
             else Inr (Some \<lparr>db = d, options = opts,
                              write_options = rocksdb_writeoptions_create,
                              read_options = rocksdb_readoptions_create,
                              cf_handles = (\<lambda>i. if i < nat n then handles i else None),
                              n_cf = n, path = db_path, is_open = True\<rparr>))"

section \<open>Example stores\<close>

text \<open>A store with nothing in it and a healthy medium.\<close>

definition empty_store :: rocksdb_t where
  "empty_store =
     \<lparr>contents = (\<lambda>h. Map.empty), families = [''default''], props = Map.empty,
      io_error = None\<rparr>"

text \<open>An environment for a brand-new path: the open with the full registry fails, the
  plain open creates an empty store when asked to, and a column family is created by
  adding its name to the store; its handle is its position.\<close>

definition new_path_env :: rocksdb_env where
  "new_path_env =
     \<lparr>rocksdb_open_column_families =
        (\<lambda>opts p n names cfo. Inl ''Invalid argument: Column families not opened''),
      rocksdb_open =
        (\<lambda>opts p. if create_if_missing opts then Inr empty_store
                    else Inl ''Invalid argument: does not exist (create_if_missing is false)''),
      rocksdb_create_column_family =
        (\<lambda>d opts name. (d\<lparr>families := families d @ [name]\<rparr>, Some (length (families d)), None)),
      malloc_ok = True\<rparr>"

text \<open>An environment for an existing store that holds the eight namespaces.\<close>

definition existing_env :: rocksdb_env where
  "existing_env =
     \<lparr>rocksdb_open_column_families =
        (\<lambda>opts p n names cfo.
           Inr (empty_store\<lparr>families := names\<rparr>, \<lambda>i. if i < nat n then Some i else None)),
      rocksdb_open = (\<lambda>opts p. Inl ''Invalid argument: Column families not opened''),
      rocksdb_create_column_family = (\<lambda>d opts name. (d, None, Some ''Invalid argument'')),
      malloc_ok = True\<rparr>"

text \<open>An environment in which the path cannot be opened at all.\<close>

definition locked_env :: rocksdb_env where
  "locked_env =
     \<lparr>rocksdb_open_column_families = (\<lambda>opts p n names cfo. Inl ''IO error: lock held''),
      rocksdb_open = (\<lambda>opts p. Inl ''IO error: lock hold by current process''),
      rocksdb_create_column_family = (\<lambda>d opts name. (d, None, Some ''IO error'')),
      malloc_ok = True\<rparr>"

text \<open>An open database over the empty store with the eight namespaces live.\<close>

definition example_db :: rocksdb_wrapper where
  "example_db =
     \<lparr>db = empty_store\<lparr>families := cf_names\<rparr>,
      options = open_options True 0,
      write_options = rocksdb_writeoptions_create,
      read_options = rocksdb_readoptions_create,
      cf_handles = (\<lambda>i. if i < 8 then Some i else None),
      n_cf = 8, path = ''/tmp/atomspace'', is_open = True\<rparr>"

text \<open>The same database on a medium that rejects every call.\<close>

definition failing_db :: rocksdb_wrapper where
  "failing_db = example_db\<lparr>db := (db example_db)\<lparr>io_error := Some ''IO error: No space left on device''\<rparr>\<rparr>"

text \<open>The example database with key k in two namespaces: value d in the default one and
  value n3 in namespace 3.\<close>

definition two_ns_db :: rocksdb_wrapper where
  "two_ns_db =
     example_db\<lparr>db := (db example_db)\<lparr>contents :=
       (\<lambda>h. Map.empty)(default_cf := [''k'' \<mapsto> ''d''], 3 := [''k'' \<mapsto> ''n3''])\<rparr>\<rparr>"

text \<open>An environment for a brand-new path on which the engine refuses to create column
  families: the plain open works, every creation fails and returns no handle.\<close>

definition no_create_env :: rocksdb_env where
  "no_create_env =
     new_path_env\<lparr>rocksdb_create_column_family :=
       (\<lambda>d opts name. (d, None, Some ''Invalid argument: Column family could not be created''))\<rparr>"

text \<open>An iterator as \<^verbatim>\<open>caml_rocksdb_iter_create\<close> returns it for the default namespace of
  the example database: live, and positioned nowhere.\<close>

definition unpositioned_iter :: iter_val where
  "unpositioned_iter =
     Some \<lparr>iter = Some (rocksdb_create_iterator (db example_db) (read_options example_db)),
           cf_index = 0\<rparr>"

text \<open>An iterator positioned on the entry with key a and value 1.\<close>

definition positioned_iter :: iter_val where
  "positioned_iter =
     Some \<lparr>iter = Some \<lparr>it_valid = True, it_key = ''a'', it_value = ''1''\<rparr>, cf_index = 0\<rparr>"

text \<open>A batch as \<^verbatim>\<open>caml_rocksdb_batch_create\<close> returns it.\<close>

definition new_batch :: batch_val where
  "new_batch = Some \<lparr>batch = Some rocksdb_writebatch_create, n_ops = 0\<rparr>"

text \<open>A batch holding 2147483647 pending deletes of the empty key, the largest number its
  counter can show.\<close>

definition full_batch :: batch_val where
  "full_batch =
     Some \<lparr>batch = Some (replicate 2147483647 (BatchDelete [])), n_ops = 2147483647\<rparr>"

text \<open>A batch with three pending operations on two keys.\<close>

definition small_batch :: batch_val where
  "small_batch =
     Some \<lparr>batch = Some [BatchPut ''a'' ''1'', BatchPut ''b'' ''2'', BatchDelete ''a''],
           n_ops = 3\<rparr>"

text \<open>The example database after a put of V1 under K in the default namespace.\<close>

definition db_before :: db_val where
  "db_before = snd (caml_rocksdb_put (Some example_db) 0 ''K'' ''V1'')"


section \<open>What a batch holds\<close>

text \<open>The pending operations of a batch handle, in the order they were added: the
  sequence the engine keeps for it, empty for a null handle. The claims about the counter
  and about the commit compare the bindings' results with it.\<close>

definition pending_ops :: "batch_val \<Rightarrow> batch_op list" where
  "pending_ops batchv =
     (case batchv of
        None \<Rightarrow> []
      | Some wrapper \<Rightarrow> (case batch wrapper of None \<Rightarrow> [] | Some b \<Rightarrow> b))"


text \<open>A caller's use of one batch: a sequence of put, delete and clear calls, each made
  on the handle the previous call left.\<close>

datatype batch_call = CallPut bytes bytes | CallDelete bytes | CallClear

fun run_call :: "batch_val \<Rightarrow> batch_call \<Rightarrow> batch_val" where
  "run_call bv (CallPut k v) = snd (caml_rocksdb_batch_put bv k v)"
| "run_call bv (CallDelete k) = snd (caml_rocksdb_batch_delete bv k)"
| "run_call bv CallClear = snd (caml_rocksdb_batch_clear bv)"

definition run_calls :: "batch_val \<Rightarrow> batch_call list \<Rightarrow> batch_val" where
  "run_calls bv cs = foldl run_call bv cs"

section \<open>Narrowing\<close>

text \<open>An integer within the range of a C \<^verbatim>\<open>int\<close> passes through \<^verbatim>\<open>Int_val\<close> unchanged;
  4294967299 and -4294967293 do not, and both come out as 3.\<close>

lemma Int_val_fits: "- 2147483648 \<le> x \<Longrightarrow> x \<le> 2147483647 \<Longrightarrow> Int_val x = x"
proof -
  assume a: "- 2147483648 \<le> x" "x \<le> 2147483647"
  have "Int_val x = signed_take_bit 31 x"
    by (simp add: Int_val_def sint_sbintrunc')
  also have "\<dots> = x"
    using a by (simp add: signed_take_bit_int_eq_self)
  finally show ?thesis .
qed

lemma Int_val_narrows: "Int_val 4294967299 = 3" "Int_val (- 4294967293) = 3"
  by (simp_all add: Int_val_def)

section \<open>The example states\<close>

text \<open>The example state, written out.\<close>

lemma db_before_eq: "db_before = Some (example_db\<lparr>db := (db example_db)\<lparr>contents :=
     (contents (db example_db))(default_cf := [''K'' \<mapsto> ''V1''])\<rparr>\<rparr>)"
  by (simp add: db_before_def caml_rocksdb_put_def Let_def Int_val_fits rocksdb_put_def rocksdb_put_cf_def
      example_db_def empty_store_def)

section \<open>Closed handles\<close>

text \<open>Closing stores \<^verbatim>\<open>NULL\<close> in the block, so a closed handle is never open again.\<close>

lemma closed_not_open: "\<not> caml_rocksdb_is_open (snd (caml_rocksdb_close dbv))"
  by (simp add: caml_rocksdb_is_open_def caml_rocksdb_close_def split: option.split)

text \<open>
  Claim C6. Every operation attempted against a database handle that is closed or was
  never opened (put, get, delete, exists, batch_write, iter_create, snapshot_create,
  get_property, compact_range and flush) fails with its not-open error; nothing is done
  and the handle is left as it was.
\<close>

theorem closed_handle_rejected:
  assumes "\<not> caml_rocksdb_is_open dbv"
  shows "caml_rocksdb_put dbv i k v = (Inl ''rocksdb_put: database not open'', dbv)
       \<and> caml_rocksdb_get dbv i k = Inl ''rocksdb_get: database not open''
       \<and> caml_rocksdb_delete dbv i k = (Inl ''rocksdb_delete: database not open'', dbv)
       \<and> caml_rocksdb_exists dbv i k = Inl ''rocksdb_exists: database not open''
       \<and> caml_rocksdb_batch_write dbv b = (Inl ''rocksdb_batch_write: database not open'', dbv)
       \<and> caml_rocksdb_iter_create m dbv i = Inl ''rocksdb_iter_create: database not open''
       \<and> caml_rocksdb_snapshot_create m dbv = Inl ''rocksdb_snapshot_create: database not open''
       \<and> caml_rocksdb_get_property dbv name = Inl ''rocksdb_get_property: database not open''
       \<and> caml_rocksdb_compact_range dbv i = (Inl ''rocksdb_compact_range: database not open'', dbv)
       \<and> caml_rocksdb_flush dbv = (Inl ''rocksdb_flush: database not open'', dbv)"
proof (cases dbv)
  case None
  then show ?thesis
    by (simp add: caml_rocksdb_put_def Let_def Int_val_fits caml_rocksdb_get_def caml_rocksdb_delete_def
        caml_rocksdb_exists_def caml_rocksdb_batch_write_def caml_rocksdb_iter_create_def
        caml_rocksdb_snapshot_create_def caml_rocksdb_get_property_def
        caml_rocksdb_compact_range_def caml_rocksdb_flush_def)
next
  case (Some w)
  with assms have "\<not> is_open w"
    by (simp add: caml_rocksdb_is_open_def)
  with Some show ?thesis
    by (simp add: caml_rocksdb_put_def Let_def Int_val_fits caml_rocksdb_get_def caml_rocksdb_delete_def
        caml_rocksdb_exists_def caml_rocksdb_batch_write_def caml_rocksdb_iter_create_def
        caml_rocksdb_snapshot_create_def caml_rocksdb_get_property_def
        caml_rocksdb_compact_range_def caml_rocksdb_flush_def)
qed

text \<open>The handle of the example database after close: null, and every operation rejects it.\<close>

theorem closed_handle_rejected_witness:
  "\<not> caml_rocksdb_is_open (snd (caml_rocksdb_close (Some example_db)))
   \<and> caml_rocksdb_put (snd (caml_rocksdb_close (Some example_db))) 1 ''k'' ''v''
       = (Inl ''rocksdb_put: database not open'', None)
   \<and> caml_rocksdb_get (snd (caml_rocksdb_close (Some example_db))) 1 ''k''
       = Inl ''rocksdb_get: database not open''
   \<and> caml_rocksdb_delete (snd (caml_rocksdb_close (Some example_db))) 1 ''k''
       = (Inl ''rocksdb_delete: database not open'', None)
   \<and> caml_rocksdb_exists (snd (caml_rocksdb_close (Some example_db))) 1 ''k''
       = Inl ''rocksdb_exists: database not open''
   \<and> caml_rocksdb_batch_write (snd (caml_rocksdb_close (Some example_db))) small_batch
       = (Inl ''rocksdb_batch_write: database not open'', None)
   \<and> caml_rocksdb_iter_create True (snd (caml_rocksdb_close (Some example_db))) 1
       = Inl ''rocksdb_iter_create: database not open''
   \<and> caml_rocksdb_snapshot_create True (snd (caml_rocksdb_close (Some example_db)))
       = Inl ''rocksdb_snapshot_create: database not open''
   \<and> caml_rocksdb_get_property (snd (caml_rocksdb_close (Some example_db))) ''rocksdb.stats''
       = Inl ''rocksdb_get_property: database not open''
   \<and> caml_rocksdb_compact_range (snd (caml_rocksdb_close (Some example_db))) 1
       = (Inl ''rocksdb_compact_range: database not open'', None)
   \<and> caml_rocksdb_flush (snd (caml_rocksdb_close (Some example_db)))
       = (Inl ''rocksdb_flush: database not open'', None)"
proof -
  have c: "snd (caml_rocksdb_close (Some example_db)) = None"
    by (simp add: caml_rocksdb_close_def example_db_def)
  have h: "\<not> caml_rocksdb_is_open (snd (caml_rocksdb_close (Some example_db)))"
    by (simp add: c caml_rocksdb_is_open_def)
  show ?thesis
    using h closed_handle_rejected
      [OF h, of 1 "''k''" "''v''" small_batch True "''rocksdb.stats''"]
    by (simp add: c)
qed

section \<open>Existence checks\<close>

text \<open>
  Claim C5. On an open database, for every namespace index and key, exists never raises:
  where get raises for a backend lookup error, exists answers false, and where the lookup
  succeeds, exists answers true exactly when get returns a present value.
\<close>

theorem exists_downgrades_errors:
  assumes "is_open w"
  shows "caml_rocksdb_exists (Some w) i k =
           (case caml_rocksdb_get (Some w) i k of
              Inl e \<Rightarrow> Inr False
            | Inr r \<Rightarrow> Inr (r \<noteq> None))"
  using assms
  by (simp add: caml_rocksdb_exists_def Let_def Int_val_fits caml_rocksdb_get_def rocksdb_get_def rocksdb_get_cf_def
      split: option.split)

text \<open>On a medium that rejects the lookup, get raises and exists answers false; on the
  healthy store, exists is true for the key that was put and false for another.\<close>

theorem exists_downgrades_errors_witness:
  "is_open failing_db
   \<and> caml_rocksdb_get (Some failing_db) 2 ''k''
       = Inl ''rocksdb_get failed: IO error: No space left on device''
   \<and> caml_rocksdb_exists (Some failing_db) 2 ''k'' = Inr False
   \<and> caml_rocksdb_get db_before 0 ''K'' = Inr (Some ''V1'')
   \<and> caml_rocksdb_exists db_before 0 ''K'' = Inr True
   \<and> caml_rocksdb_get db_before 0 ''k'' = Inr None
   \<and> caml_rocksdb_exists db_before 0 ''k'' = Inr False"
proof -
  have h: "is_open failing_db"
    by (simp add: failing_db_def example_db_def)
  have g: "caml_rocksdb_get (Some failing_db) 2 ''k''
             = Inl ''rocksdb_get failed: IO error: No space left on device''"
    by (simp add: caml_rocksdb_get_def Let_def Int_val_fits rocksdb_get_cf_def failing_db_def example_db_def
        snprintf_msg_def)
  have a: "caml_rocksdb_exists (Some failing_db) 2 ''k'' = Inr False"
    using g exists_downgrades_errors [OF h, of 2 "''k''"] by simp
  let ?w = "example_db\<lparr>db := (db example_db)\<lparr>contents :=
              (contents (db example_db))(default_cf := [''K'' \<mapsto> ''V1''])\<rparr>\<rparr>"
  have h': "is_open ?w"
    by (simp add: example_db_def)
  have g1: "caml_rocksdb_get (Some ?w) 0 ''K'' = Inr (Some ''V1'')"
    by (simp add: caml_rocksdb_get_def Let_def Int_val_fits rocksdb_get_def rocksdb_get_cf_def visible_def
        example_db_def empty_store_def rocksdb_readoptions_create_def)
  have g2: "caml_rocksdb_get (Some ?w) 0 ''k'' = Inr None"
    by (simp add: caml_rocksdb_get_def Let_def Int_val_fits rocksdb_get_def rocksdb_get_cf_def visible_def
        example_db_def empty_store_def rocksdb_readoptions_create_def)
  have b: "caml_rocksdb_exists (Some ?w) 0 ''K'' = Inr True"
    using g1 exists_downgrades_errors [OF h', of 0 "''K''"] by simp
  have c: "caml_rocksdb_exists (Some ?w) 0 ''k'' = Inr False"
    using g2 exists_downgrades_errors [OF h', of 0 "''k''"] by simp
  show ?thesis
    using h g a g1 g2 b c by (simp add: db_before_eq)
qed

section \<open>The namespace of a point operation\<close>

text \<open>
  Claim C7, as it holds of the bindings. On an open database, for a supplied namespace
  index that fits a 32-bit C int, put, get, delete and exists work on the default
  namespace whenever the index is out of the registry's range (zero, negative, at or
  beyond the registered count, or naming a slot whose handle is null), and on the
  namespace of the slot's handle when the index lies strictly between 0 and the registered
  count and the slot is live. Each outcome is given in full: the committed contents after
  a write, the value a read sees, and the error when the medium fails.
\<close>

theorem namespace_index_fallback:
  assumes "is_open w" and "- 2147483648 \<le> i" and "i \<le> 2147483647"
  shows "(\<not> (0 < i \<and> i < n_cf w \<and> cf_handles w (nat i) \<noteq> None) \<longrightarrow>
            caml_rocksdb_put (Some w) i k v =
              (case io_error (db w) of
                 None \<Rightarrow> (Inr (), Some (w\<lparr>db := (db w)\<lparr>contents :=
                            (contents (db w))(default_cf := (contents (db w) default_cf)(k \<mapsto> v))\<rparr>\<rparr>))
               | Some e \<Rightarrow> (Inl (snprintf_msg ''rocksdb_put failed: '' e), Some w))
          \<and> caml_rocksdb_get (Some w) i k =
              (case io_error (db w) of
                 None \<Rightarrow> Inr (visible (db w) (read_options w) default_cf k)
               | Some e \<Rightarrow> Inl (snprintf_msg ''rocksdb_get failed: '' e))
          \<and> caml_rocksdb_delete (Some w) i k =
              (case io_error (db w) of
                 None \<Rightarrow> (Inr (), Some (w\<lparr>db := (db w)\<lparr>contents :=
                            (contents (db w))(default_cf := (contents (db w) default_cf)(k := None))\<rparr>\<rparr>))
               | Some e \<Rightarrow> (Inl (snprintf_msg ''rocksdb_delete failed: '' e), Some w))
          \<and> caml_rocksdb_exists (Some w) i k =
              (case io_error (db w) of
                 None \<Rightarrow> Inr (visible (db w) (read_options w) default_cf k \<noteq> None)
               | Some e \<Rightarrow> Inr False))
       \<and> (0 < i \<and> i < n_cf w \<and> cf_handles w (nat i) = Some h \<longrightarrow>
            caml_rocksdb_put (Some w) i k v =
              (case io_error (db w) of
                 None \<Rightarrow> (Inr (), Some (w\<lparr>db := (db w)\<lparr>contents :=
                            (contents (db w))(h := (contents (db w) h)(k \<mapsto> v))\<rparr>\<rparr>))
               | Some e \<Rightarrow> (Inl (snprintf_msg ''rocksdb_put failed: '' e), Some w))
          \<and> caml_rocksdb_get (Some w) i k =
              (case io_error (db w) of
                 None \<Rightarrow> Inr (visible (db w) (read_options w) h k)
               | Some e \<Rightarrow> Inl (snprintf_msg ''rocksdb_get failed: '' e))
          \<and> caml_rocksdb_delete (Some w) i k =
              (case io_error (db w) of
                 None \<Rightarrow> (Inr (), Some (w\<lparr>db := (db w)\<lparr>contents :=
                            (contents (db w))(h := (contents (db w) h)(k := None))\<rparr>\<rparr>))
               | Some e \<Rightarrow> (Inl (snprintf_msg ''rocksdb_delete failed: '' e), Some w))
          \<and> caml_rocksdb_exists (Some w) i k =
              (case io_error (db w) of
                 None \<Rightarrow> Inr (visible (db w) (read_options w) h k \<noteq> None)
               | Some e \<Rightarrow> Inr False))"
proof (intro conjI impI)
  assume out: "\<not> (0 < i \<and> i < n_cf w \<and> cf_handles w (nat i) \<noteq> None)"
  show "caml_rocksdb_put (Some w) i k v =
              (case io_error (db w) of
                 None \<Rightarrow> (Inr (), Some (w\<lparr>db := (db w)\<lparr>contents :=
                            (contents (db w))(default_cf := (contents (db w) default_cf)(k \<mapsto> v))\<rparr>\<rparr>))
               | Some e \<Rightarrow> (Inl (snprintf_msg ''rocksdb_put failed: '' e), Some w))"
    using assms(1) out
    by (auto simp: caml_rocksdb_put_def Let_def Int_val_fits [OF assms(2,3)] rocksdb_put_def rocksdb_put_cf_def split: option.split)
  show "caml_rocksdb_get (Some w) i k =
              (case io_error (db w) of
                 None \<Rightarrow> Inr (visible (db w) (read_options w) default_cf k)
               | Some e \<Rightarrow> Inl (snprintf_msg ''rocksdb_get failed: '' e))"
    using assms(1) out
    by (auto simp: caml_rocksdb_get_def Let_def Int_val_fits [OF assms(2,3)] rocksdb_get_def rocksdb_get_cf_def split: option.split)
  show "caml_rocksdb_delete (Some w) i k =
              (case io_error (db w) of
                 None \<Rightarrow> (Inr (), Some (w\<lparr>db := (db w)\<lparr>contents :=
                            (contents (db w))(default_cf := (contents (db w) default_cf)(k := None))\<rparr>\<rparr>))
               | Some e \<Rightarrow> (Inl (snprintf_msg ''rocksdb_delete failed: '' e), Some w))"
    using assms(1) out
    by (auto simp: caml_rocksdb_delete_def Let_def Int_val_fits [OF assms(2,3)] rocksdb_delete_def rocksdb_delete_cf_def split: option.split)
  show "caml_rocksdb_exists (Some w) i k =
              (case io_error (db w) of
                 None \<Rightarrow> Inr (visible (db w) (read_options w) default_cf k \<noteq> None)
               | Some e \<Rightarrow> Inr False)"
    using assms(1) out
    by (auto simp: caml_rocksdb_exists_def Let_def Int_val_fits [OF assms(2,3)] rocksdb_get_def rocksdb_get_cf_def split: option.split)
next
  assume inr: "0 < i \<and> i < n_cf w \<and> cf_handles w (nat i) = Some h"
  show "caml_rocksdb_put (Some w) i k v =
              (case io_error (db w) of
                 None \<Rightarrow> (Inr (), Some (w\<lparr>db := (db w)\<lparr>contents :=
                            (contents (db w))(h := (contents (db w) h)(k \<mapsto> v))\<rparr>\<rparr>))
               | Some e \<Rightarrow> (Inl (snprintf_msg ''rocksdb_put failed: '' e), Some w))"
    using assms(1) inr
    by (simp add: caml_rocksdb_put_def Let_def Int_val_fits [OF assms(2,3)] rocksdb_put_cf_def split: option.split)
  show "caml_rocksdb_get (Some w) i k =
              (case io_error (db w) of
                 None \<Rightarrow> Inr (visible (db w) (read_options w) h k)
               | Some e \<Rightarrow> Inl (snprintf_msg ''rocksdb_get failed: '' e))"
    using assms(1) inr
    by (simp add: caml_rocksdb_get_def Let_def Int_val_fits [OF assms(2,3)] rocksdb_get_cf_def split: option.split)
  show "caml_rocksdb_delete (Some w) i k =
              (case io_error (db w) of
                 None \<Rightarrow> (Inr (), Some (w\<lparr>db := (db w)\<lparr>contents :=
                            (contents (db w))(h := (contents (db w) h)(k := None))\<rparr>\<rparr>))
               | Some e \<Rightarrow> (Inl (snprintf_msg ''rocksdb_delete failed: '' e), Some w))"
    using assms(1) inr
    by (simp add: caml_rocksdb_delete_def Let_def Int_val_fits [OF assms(2,3)] rocksdb_delete_cf_def split: option.split)
  show "caml_rocksdb_exists (Some w) i k =
              (case io_error (db w) of
                 None \<Rightarrow> Inr (visible (db w) (read_options w) h k \<noteq> None)
               | Some e \<Rightarrow> Inr False)"
    using assms(1) inr
    by (simp add: caml_rocksdb_exists_def Let_def Int_val_fits [OF assms(2,3)] rocksdb_get_cf_def split: option.split)
qed


text \<open>On the database that holds d under k in the default namespace and n3 under k in
  namespace 3: indices 9, 0 and -1 read d, index 3 reads n3, and index 2 reads d once
  slot 2 is null; a put at index 9 is seen at index 0 and not at index 3, a put at index
  3 is seen at index 3 and not at index 0.\<close>

theorem namespace_index_fallback_witness:
  "is_open two_ns_db
   \<and> \<not> (0 < (9::int) \<and> 9 < n_cf two_ns_db \<and> cf_handles two_ns_db (nat 9) \<noteq> None)
   \<and> caml_rocksdb_get (Some two_ns_db) 9 ''k'' = Inr (Some ''d'')
   \<and> caml_rocksdb_get (Some two_ns_db) 0 ''k'' = Inr (Some ''d'')
   \<and> caml_rocksdb_exists (Some two_ns_db) (- 1) ''k'' = Inr True
   \<and> (0 < (3::int) \<and> 3 < n_cf two_ns_db \<and> cf_handles two_ns_db (nat 3) = Some 3)
   \<and> caml_rocksdb_get (Some two_ns_db) 3 ''k'' = Inr (Some ''n3'')
   \<and> caml_rocksdb_get (Some (two_ns_db\<lparr>cf_handles := (cf_handles two_ns_db)(3 := None)\<rparr>))
         3 ''k'' = Inr (Some ''d'')
   \<and> caml_rocksdb_get (snd (caml_rocksdb_put (Some two_ns_db) 9 ''k'' ''new'')) 0 ''k''
       = Inr (Some ''new'')
   \<and> caml_rocksdb_get (snd (caml_rocksdb_put (Some two_ns_db) 9 ''k'' ''new'')) 3 ''k''
       = Inr (Some ''n3'')
   \<and> caml_rocksdb_get (snd (caml_rocksdb_put (Some two_ns_db) 3 ''k'' ''new'')) 3 ''k''
       = Inr (Some ''new'')
   \<and> caml_rocksdb_get (snd (caml_rocksdb_put (Some two_ns_db) 3 ''k'' ''new'')) 0 ''k''
       = Inr (Some ''d'')
   \<and> caml_rocksdb_get (snd (caml_rocksdb_delete (Some two_ns_db) 3 ''k'')) 3 ''k'' = Inr None
   \<and> caml_rocksdb_get (snd (caml_rocksdb_delete (Some two_ns_db) 3 ''k'')) 0 ''k''
       = Inr (Some ''d'')"
proof -
  have h: "is_open two_ns_db"
    by (simp add: two_ns_db_def example_db_def)
  have ok: "io_error (db two_ns_db) = None"
    by (simp add: two_ns_db_def example_db_def empty_store_def)
  have ro: "visible (db two_ns_db) (read_options two_ns_db) default_cf ''k'' = Some ''d''"
    "visible (db two_ns_db) (read_options two_ns_db) 3 ''k'' = Some ''n3''"
    by (simp_all add: two_ns_db_def example_db_def visible_def rocksdb_readoptions_create_def
        default_cf_def)
  have out9: "\<not> (0 < (9::int) \<and> 9 < n_cf two_ns_db \<and> cf_handles two_ns_db (nat 9) \<noteq> None)"
    by (simp add: two_ns_db_def example_db_def)
  have inr: "0 < (3::int) \<and> 3 < n_cf two_ns_db \<and> cf_handles two_ns_db (nat 3) = Some 3"
    by (simp add: two_ns_db_def example_db_def)
  from namespace_index_fallback [OF h, of 9 "''k''" "''new''" 3] out9
  have g9: "caml_rocksdb_get (Some two_ns_db) 9 ''k'' = Inr (Some ''d'')"
    and p9: "caml_rocksdb_put (Some two_ns_db) 9 ''k'' ''new''
       = (Inr (), Some (two_ns_db\<lparr>db := (db two_ns_db)\<lparr>contents :=
            (contents (db two_ns_db))
              (default_cf := (contents (db two_ns_db) default_cf)(''k'' \<mapsto> ''new''))\<rparr>\<rparr>))"
    by (simp_all add: ok ro)
  from namespace_index_fallback [OF h, of 0 "''k''" "''new''" 3]
  have g0: "caml_rocksdb_get (Some two_ns_db) 0 ''k'' = Inr (Some ''d'')"
    by (simp add: ok ro)
  from namespace_index_fallback [OF h, of "- 1" "''k''" "''new''" 3]
  have gm: "caml_rocksdb_exists (Some two_ns_db) (- 1) ''k'' = Inr True"
    by (simp add: ok ro)
  from namespace_index_fallback [OF h, of 3 "''k''" "''new''" 3] inr
  have g3: "caml_rocksdb_get (Some two_ns_db) 3 ''k'' = Inr (Some ''n3'')"
    and p3: "caml_rocksdb_put (Some two_ns_db) 3 ''k'' ''new''
       = (Inr (), Some (two_ns_db\<lparr>db := (db two_ns_db)\<lparr>contents :=
            (contents (db two_ns_db))(3 := (contents (db two_ns_db) 3)(''k'' \<mapsto> ''new''))\<rparr>\<rparr>))"
    and d3: "caml_rocksdb_delete (Some two_ns_db) 3 ''k''
       = (Inr (), Some (two_ns_db\<lparr>db := (db two_ns_db)\<lparr>contents :=
            (contents (db two_ns_db))(3 := (contents (db two_ns_db) 3)(''k'' := None))\<rparr>\<rparr>))"
    by (simp_all add: ok ro)
  let ?n = "two_ns_db\<lparr>cf_handles := (cf_handles two_ns_db)(3 := None)\<rparr>"
  have hn: "is_open ?n"
    using h by simp
  from namespace_index_fallback [OF hn, of 3 "''k''" "''new''" 3]
  have gn: "caml_rocksdb_get (Some ?n) 3 ''k'' = Inr (Some ''d'')"
    using ok ro by simp
  let ?a = "two_ns_db\<lparr>db := (db two_ns_db)\<lparr>contents :=
            (contents (db two_ns_db))
              (default_cf := (contents (db two_ns_db) default_cf)(''k'' \<mapsto> ''new''))\<rparr>\<rparr>"
  have ha: "is_open ?a"
    using h by simp
  from namespace_index_fallback [OF ha, of 0 "''k''" "''new''" 3]
  have a0: "caml_rocksdb_get (Some ?a) 0 ''k'' = Inr (Some ''new'')"
    using ok by (simp add: visible_def two_ns_db_def example_db_def
        rocksdb_readoptions_create_def)
  from namespace_index_fallback [OF ha, of 3 "''k''" "''new''" 3] inr
  have a3: "caml_rocksdb_get (Some ?a) 3 ''k'' = Inr (Some ''n3'')"
    using ok by (simp add: visible_def two_ns_db_def example_db_def
        rocksdb_readoptions_create_def default_cf_def)
  let ?b = "two_ns_db\<lparr>db := (db two_ns_db)\<lparr>contents :=
            (contents (db two_ns_db))(3 := (contents (db two_ns_db) 3)(''k'' \<mapsto> ''new''))\<rparr>\<rparr>"
  have hb: "is_open ?b"
    using h by simp
  from namespace_index_fallback [OF hb, of 3 "''k''" "''new''" 3] inr
  have b3: "caml_rocksdb_get (Some ?b) 3 ''k'' = Inr (Some ''new'')"
    using ok by (simp add: visible_def two_ns_db_def example_db_def
        rocksdb_readoptions_create_def)
  from namespace_index_fallback [OF hb, of 0 "''k''" "''new''" 3]
  have b0: "caml_rocksdb_get (Some ?b) 0 ''k'' = Inr (Some ''d'')"
    using ok by (simp add: visible_def two_ns_db_def example_db_def
        rocksdb_readoptions_create_def default_cf_def)
  let ?c = "two_ns_db\<lparr>db := (db two_ns_db)\<lparr>contents :=
            (contents (db two_ns_db))(3 := (contents (db two_ns_db) 3)(''k'' := None))\<rparr>\<rparr>"
  have hc: "is_open ?c"
    using h by simp
  from namespace_index_fallback [OF hc, of 3 "''k''" "''new''" 3] inr
  have c3: "caml_rocksdb_get (Some ?c) 3 ''k'' = Inr None"
    using ok by (simp add: visible_def two_ns_db_def example_db_def
        rocksdb_readoptions_create_def)
  from namespace_index_fallback [OF hc, of 0 "''k''" "''new''" 3]
  have c0: "caml_rocksdb_get (Some ?c) 0 ''k'' = Inr (Some ''d'')"
    using ok by (simp add: visible_def two_ns_db_def example_db_def
        rocksdb_readoptions_create_def default_cf_def)
  show ?thesis
    using h out9 inr g9 g0 gm g3 gn a0 a3 b3 b0 c3 c0 by (simp add: p9 p3 d3)
qed

text \<open>
  The claim as stated fails for an index that does not fit a C int. The supplied index
  4294967299 lies beyond the registered count of 8, and -4294967293 is negative, yet
  \<^verbatim>\<open>Int_val\<close> narrows both to 3 before the range test: the read returns the value of
  namespace 3, not the one of the default namespace, and the put lands in namespace 3.
\<close>

theorem namespace_index_narrowed_counterexample:
  "n_cf two_ns_db \<le> 4294967299
   \<and> caml_rocksdb_get (Some two_ns_db) 0 ''k'' = Inr (Some ''d'')
   \<and> caml_rocksdb_get (Some two_ns_db) 3 ''k'' = Inr (Some ''n3'')
   \<and> caml_rocksdb_get (Some two_ns_db) 4294967299 ''k'' = Inr (Some ''n3'')
   \<and> caml_rocksdb_exists (Some two_ns_db) 4294967299 ''absent'' = Inr False
   \<and> (- 4294967293 :: int) < 0
   \<and> caml_rocksdb_get (snd (caml_rocksdb_put (Some two_ns_db) (- 4294967293) ''k'' ''new''))
         3 ''k'' = Inr (Some ''new'')
   \<and> caml_rocksdb_get (snd (caml_rocksdb_put (Some two_ns_db) (- 4294967293) ''k'' ''new''))
         0 ''k'' = Inr (Some ''d'')
   \<and> caml_rocksdb_get (snd (caml_rocksdb_delete (Some two_ns_db) 4294967299 ''k''))
         3 ''k'' = Inr None
   \<and> caml_rocksdb_get (snd (caml_rocksdb_delete (Some two_ns_db) 4294967299 ''k''))
         0 ''k'' = Inr (Some ''d'')"
proof -
  have n: "Int_val 0 = 0" "Int_val 3 = 3"
    by (simp_all add: Int_val_fits)
  show ?thesis
    by (simp add: caml_rocksdb_get_def caml_rocksdb_exists_def caml_rocksdb_put_def
        caml_rocksdb_delete_def Let_def n Int_val_narrows rocksdb_get_def rocksdb_get_cf_def
        rocksdb_put_def rocksdb_put_cf_def rocksdb_delete_def rocksdb_delete_cf_def
        visible_def two_ns_db_def example_db_def empty_store_def
        rocksdb_readoptions_create_def default_cf_def)
qed

section \<open>Iterator accessors\<close>

text \<open>
  Claim C3, as it holds of the bindings. The key and value accessors fail with their
  invalid-iterator error on a destroyed iterator (a null wrapper, or a wrapper whose
  engine iterator is null), for which valid answers false as well; on a live iterator for
  which valid answers true they return the key and the value of the entry it is
  positioned on.
\<close>

theorem iter_accessors_guard:
  "caml_rocksdb_iter_key (snd (caml_rocksdb_iter_destroy iv))
      = Inl ''rocksdb_iter_key: invalid iterator''
   \<and> caml_rocksdb_iter_value (snd (caml_rocksdb_iter_destroy iv))
      = Inl ''rocksdb_iter_value: invalid iterator''
   \<and> caml_rocksdb_iter_valid (snd (caml_rocksdb_iter_destroy iv)) = False
   \<and> (iter w = None \<longrightarrow>
        caml_rocksdb_iter_key (Some w) = Inl ''rocksdb_iter_key: invalid iterator''
        \<and> caml_rocksdb_iter_value (Some w) = Inl ''rocksdb_iter_value: invalid iterator''
        \<and> caml_rocksdb_iter_valid (Some w) = False)
   \<and> (iter w = Some i \<and> caml_rocksdb_iter_valid (Some w) \<longrightarrow>
        it_valid i
        \<and> caml_rocksdb_iter_key (Some w) = Inr (it_key i)
        \<and> caml_rocksdb_iter_value (Some w) = Inr (it_value i))"
  by (simp add: caml_rocksdb_iter_destroy_def caml_rocksdb_iter_valid_def
      caml_rocksdb_iter_key_def caml_rocksdb_iter_value_def rocksdb_iter_valid_def
      rocksdb_iter_key_def rocksdb_iter_value_def split: option.split)

text \<open>A wrapper without an engine iterator, and the iterator positioned on an entry.\<close>

theorem iter_accessors_guard_witness:
  "iter \<lparr>iter = None, cf_index = 0\<rparr> = None
   \<and> caml_rocksdb_iter_key (Some \<lparr>iter = None, cf_index = 0\<rparr>)
       = Inl ''rocksdb_iter_key: invalid iterator''
   \<and> caml_rocksdb_iter_valid positioned_iter
   \<and> caml_rocksdb_iter_key positioned_iter = Inr ''a''
   \<and> caml_rocksdb_iter_value positioned_iter = Inr ''1''"
proof -
  have v: "caml_rocksdb_iter_valid positioned_iter"
    by (simp add: positioned_iter_def caml_rocksdb_iter_valid_def rocksdb_iter_valid_def)
  have n: "iter \<lparr>iter = None, cf_index = 0\<rparr> = None"
    by simp
  from iter_accessors_guard
         [of None "\<lparr>iter = None, cf_index = 0\<rparr>" "\<lparr>it_valid = True, it_key = ''a'', it_value = ''1''\<rparr>"]
  have a: "caml_rocksdb_iter_key (Some \<lparr>iter = None, cf_index = 0\<rparr>)
       = Inl ''rocksdb_iter_key: invalid iterator''"
    by simp
  from v iter_accessors_guard
         [of None "\<lparr>iter = Some \<lparr>it_valid = True, it_key = ''a'', it_value = ''1''\<rparr>, cf_index = 0\<rparr>"
            "\<lparr>it_valid = True, it_key = ''a'', it_value = ''1''\<rparr>"]
  have b: "caml_rocksdb_iter_key positioned_iter = Inr ''a''
           \<and> caml_rocksdb_iter_value positioned_iter = Inr ''1''"
    by (simp add: positioned_iter_def)
  show ?thesis
    using v n a b by blast
qed

text \<open>
  The claim as stated fails: an iterator fresh from \<^verbatim>\<open>caml_rocksdb_iter_create\<close> is
  positioned nowhere, valid answers false, and both accessors return what the engine's
  buffers hold instead of failing.
\<close>

theorem iter_accessors_unchecked_counterexample:
  "caml_rocksdb_iter_create True (Some example_db) 0 = Inr unpositioned_iter
   \<and> caml_rocksdb_iter_valid unpositioned_iter = False
   \<and> caml_rocksdb_iter_key unpositioned_iter = Inr []
   \<and> caml_rocksdb_iter_value unpositioned_iter = Inr []"
  by (simp add: caml_rocksdb_iter_create_def Let_def Int_val_fits caml_rocksdb_iter_valid_def
      caml_rocksdb_iter_key_def caml_rocksdb_iter_value_def unpositioned_iter_def
      example_db_def rocksdb_create_iterator_def rocksdb_create_iterator_cf_def
      rocksdb_iter_valid_def rocksdb_iter_key_def rocksdb_iter_value_def)

section \<open>Destroying twice\<close>

text \<open>
  Claim C9, as it holds of the bindings. Destroying a batch or an iterator, or releasing
  a snapshot, never raises; a second call on the handle the first call left behind returns
  unit again and changes nothing: for a batch and an iterator the handle is null after the
  first call and stays null.
\<close>

theorem double_destroy_is_silent:
  "fst (caml_rocksdb_batch_destroy bv) = Inr ()
   \<and> snd (caml_rocksdb_batch_destroy bv) = None
   \<and> caml_rocksdb_batch_destroy (snd (caml_rocksdb_batch_destroy bv)) = (Inr (), None)
   \<and> fst (caml_rocksdb_iter_destroy iv) = Inr ()
   \<and> snd (caml_rocksdb_iter_destroy iv) = None
   \<and> caml_rocksdb_iter_destroy (snd (caml_rocksdb_iter_destroy iv)) = (Inr (), None)
   \<and> fst (caml_rocksdb_snapshot_release sv) = Inr ()
   \<and> caml_rocksdb_snapshot_release (snd (caml_rocksdb_snapshot_release sv))
       = (Inr (), snd (caml_rocksdb_snapshot_release sv))"
  by (simp add: caml_rocksdb_batch_destroy_def caml_rocksdb_iter_destroy_def
      caml_rocksdb_snapshot_release_def split: option.split)

text \<open>
  The claim as stated fails: the second destroy of a new batch, the second destroy of a
  new iterator and the second release of a new snapshot each return unit, not an error.
\<close>

theorem double_destroy_counterexample:
  "caml_rocksdb_batch_create True = Inr new_batch
   \<and> caml_rocksdb_batch_destroy (snd (caml_rocksdb_batch_destroy new_batch)) = (Inr (), None)
   \<and> caml_rocksdb_iter_create True (Some example_db) 0 = Inr unpositioned_iter
   \<and> caml_rocksdb_iter_destroy (snd (caml_rocksdb_iter_destroy unpositioned_iter))
       = (Inr (), None)
   \<and> caml_rocksdb_snapshot_create True (Some example_db)
       = Inr (Some \<lparr>snapshot = Some (contents (db example_db)), db_wrapper = Some example_db\<rparr>)
   \<and> caml_rocksdb_snapshot_release
        (snd (caml_rocksdb_snapshot_release
               (Some \<lparr>snapshot = Some (contents (db example_db)),
                      db_wrapper = Some example_db\<rparr>)))
       = (Inr (), None)"
  by (simp add: caml_rocksdb_batch_create_def caml_rocksdb_batch_destroy_def new_batch_def
      caml_rocksdb_iter_create_def Let_def Int_val_fits caml_rocksdb_iter_destroy_def unpositioned_iter_def
      caml_rocksdb_snapshot_create_def caml_rocksdb_snapshot_release_def
      rocksdb_create_snapshot_def rocksdb_create_iterator_def example_db_def)

section \<open>A destroyed batch\<close>

text \<open>
  Claim C10, as it holds of the bindings. On a batch handle that has been destroyed,
  count returns 0 without raising; put, delete and clear fail with their invalid-batch
  error; write fails with its invalid-batch error when the database is open and with its
  not-open error otherwise, the database being checked first; and destroy returns unit
  again. Count and destroy are the two batch operations that tolerate a destroyed handle
  silently.
\<close>

theorem destroyed_batch_operations:
  "caml_rocksdb_batch_count (snd (caml_rocksdb_batch_destroy bv)) = 0
   \<and> caml_rocksdb_batch_put (snd (caml_rocksdb_batch_destroy bv)) k v
       = (Inl ''rocksdb_batch_put: invalid batch'', None)
   \<and> caml_rocksdb_batch_delete (snd (caml_rocksdb_batch_destroy bv)) k
       = (Inl ''rocksdb_batch_delete: invalid batch'', None)
   \<and> caml_rocksdb_batch_clear (snd (caml_rocksdb_batch_destroy bv))
       = (Inl ''rocksdb_batch_clear: invalid batch'', None)
   \<and> caml_rocksdb_batch_write dbv (snd (caml_rocksdb_batch_destroy bv))
       = (Inl (if caml_rocksdb_is_open dbv then ''rocksdb_batch_write: invalid batch''
               else ''rocksdb_batch_write: database not open''), dbv)
   \<and> caml_rocksdb_batch_destroy (snd (caml_rocksdb_batch_destroy bv)) = (Inr (), None)"
  by (simp add: caml_rocksdb_batch_destroy_def caml_rocksdb_batch_count_def
      caml_rocksdb_batch_put_def caml_rocksdb_batch_delete_def caml_rocksdb_batch_clear_def
      caml_rocksdb_batch_write_def caml_rocksdb_is_open_def split: option.split)

text \<open>
  The claim as stated fails twice on a new batch that has been destroyed: destroy
  tolerates the destroyed handle as silently as count does, and write against a closed
  database reports that the database is not open, not that the batch is invalid.
\<close>

theorem destroyed_batch_counterexample:
  "caml_rocksdb_batch_destroy (snd (caml_rocksdb_batch_destroy new_batch)) = (Inr (), None)
   \<and> caml_rocksdb_batch_write (snd (caml_rocksdb_close (Some example_db)))
        (snd (caml_rocksdb_batch_destroy new_batch))
       = (Inl ''rocksdb_batch_write: database not open'', None)"
  by (simp add: caml_rocksdb_batch_destroy_def caml_rocksdb_batch_write_def new_batch_def
      caml_rocksdb_close_def example_db_def)

section \<open>The counter of a batch\<close>

text \<open>The counter is a 32-bit signed integer: one more is one more below its largest
  value.\<close>

lemma sint_succ: "sint (x :: 32 word) < 2147483647 \<Longrightarrow> sint (x + 1) = sint x + 1"
proof -
  assume a: "sint x < 2147483647"
  have lo: "- (2 ^ 31) \<le> sint x"
    using sint_ge [of x] by simp
  have "sint (x + 1) = signed_take_bit 31 (sint x + 1)"
    by (simp add: sint_word_ariths)
  also have "\<dots> = sint x + 1"
    using a lo by (simp add: signed_take_bit_int_eq_self)
  finally show ?thesis .
qed

text \<open>A successful put, delete or clear found a live batch and left this wrapper.\<close>

lemma put_live:
  "fst (caml_rocksdb_batch_put bv k v) = Inr () \<Longrightarrow>
   \<exists>bw b. bv = Some bw \<and> batch bw = Some b
     \<and> snd (caml_rocksdb_batch_put bv k v)
          = Some (bw\<lparr>batch := Some (b @ [BatchPut k v]), n_ops := n_ops bw + 1\<rparr>)"
  by (auto simp: caml_rocksdb_batch_put_def rocksdb_writebatch_put_def split: option.splits)

lemma delete_live:
  "fst (caml_rocksdb_batch_delete bv k) = Inr () \<Longrightarrow>
   \<exists>bw b. bv = Some bw \<and> batch bw = Some b
     \<and> snd (caml_rocksdb_batch_delete bv k)
          = Some (bw\<lparr>batch := Some (b @ [BatchDelete k]), n_ops := n_ops bw + 1\<rparr>)"
  by (auto simp: caml_rocksdb_batch_delete_def rocksdb_writebatch_delete_def
      split: option.splits)

lemma clear_live:
  "fst (caml_rocksdb_batch_clear bv) = Inr () \<Longrightarrow>
   \<exists>bw b. bv = Some bw \<and> batch bw = Some b
     \<and> snd (caml_rocksdb_batch_clear bv) = Some (bw\<lparr>batch := Some [], n_ops := 0\<rparr>)"
  by (auto simp: caml_rocksdb_batch_clear_def rocksdb_writebatch_clear_def split: option.splits)

text \<open>Along any sequence of at most 2147483647 calls on a new batch, the batch stays live
  and its counter equals the length of the pending sequence.\<close>

lemma run_calls_invariant:
  "length cs \<le> 2147483647 \<Longrightarrow>
   (\<exists>bw b. run_calls new_batch cs = Some bw \<and> batch bw = Some b
      \<and> sint (n_ops bw) = int (length b) \<and> length b \<le> length cs)"
proof (induction cs rule: rev_induct)
  case Nil
  then show ?case
    by (simp add: run_calls_def new_batch_def rocksdb_writebatch_create_def)
next
  case (snoc c cs)
  then obtain bw b where i: "run_calls new_batch cs = Some bw" "batch bw = Some b"
    "sint (n_ops bw) = int (length b)" "length b \<le> length cs"
    by auto
  from snoc.prems i have lt: "sint (n_ops bw) < 2147483647"
    by simp
  have r: "run_calls new_batch (cs @ [c]) = run_call (Some bw) c"
    by (simp add: run_calls_def i(1) [unfolded run_calls_def])
  show ?case
  proof (cases c)
    case (CallPut k v)
    with i lt show ?thesis
      unfolding r
      by (simp add: caml_rocksdb_batch_put_def rocksdb_writebatch_put_def sint_succ)
  next
    case (CallDelete k)
    with i lt show ?thesis
      unfolding r
      by (simp add: caml_rocksdb_batch_delete_def rocksdb_writebatch_delete_def sint_succ)
  next
    case CallClear
    with i show ?thesis
      unfolding r
      by (simp add: caml_rocksdb_batch_clear_def rocksdb_writebatch_clear_def)
  qed
qed

text \<open>
  Claim C8, as it holds of the bindings. A newly created batch has count 0 and nothing
  pending. Each successful put and each successful delete on a batch whose count is below
  2147483647 appends one pending operation and increases count by exactly one, so after
  any sequence of at most 2147483647 put, delete and clear calls on a new batch count
  equals the number of pending operations. A successful clear leaves nothing pending and
  count 0, and the batch still accepts operations.
\<close>

theorem batch_count_tracks_pending:
  "(caml_rocksdb_batch_create True = Inr new_batch
     \<and> caml_rocksdb_batch_count new_batch = 0
     \<and> pending_ops new_batch = [])
   \<and> (fst (caml_rocksdb_batch_put bv k v) = Inr () \<and> caml_rocksdb_batch_count bv < 2147483647 \<longrightarrow>
         caml_rocksdb_batch_count (snd (caml_rocksdb_batch_put bv k v))
           = caml_rocksdb_batch_count bv + 1
         \<and> pending_ops (snd (caml_rocksdb_batch_put bv k v)) = pending_ops bv @ [BatchPut k v])
   \<and> (fst (caml_rocksdb_batch_delete bv k) = Inr () \<and> caml_rocksdb_batch_count bv < 2147483647 \<longrightarrow>
         caml_rocksdb_batch_count (snd (caml_rocksdb_batch_delete bv k))
           = caml_rocksdb_batch_count bv + 1
         \<and> pending_ops (snd (caml_rocksdb_batch_delete bv k)) = pending_ops bv @ [BatchDelete k])
   \<and> (fst (caml_rocksdb_batch_clear bv) = Inr () \<longrightarrow>
         caml_rocksdb_batch_count (snd (caml_rocksdb_batch_clear bv)) = 0
         \<and> pending_ops (snd (caml_rocksdb_batch_clear bv)) = []
         \<and> fst (caml_rocksdb_batch_put (snd (caml_rocksdb_batch_clear bv)) k v) = Inr ())
   \<and> (length cs \<le> 2147483647 \<longrightarrow>
         caml_rocksdb_batch_count (run_calls new_batch cs)
           = int (length (pending_ops (run_calls new_batch cs))))"
proof (intro conjI impI)
  show "caml_rocksdb_batch_create True = Inr new_batch"
    by (simp add: caml_rocksdb_batch_create_def new_batch_def)
  show "caml_rocksdb_batch_count new_batch = 0"
    by (simp add: caml_rocksdb_batch_count_def new_batch_def)
  show "pending_ops new_batch = []"
    by (simp add: pending_ops_def new_batch_def rocksdb_writebatch_create_def)
next
  assume a: "fst (caml_rocksdb_batch_put bv k v) = Inr ()
               \<and> caml_rocksdb_batch_count bv < 2147483647"
  then obtain bw b where l: "bv = Some bw" "batch bw = Some b"
    "snd (caml_rocksdb_batch_put bv k v)
       = Some (bw\<lparr>batch := Some (b @ [BatchPut k v]), n_ops := n_ops bw + 1\<rparr>)"
    using put_live by blast
  from a l have "sint (n_ops bw) < 2147483647"
    by (simp add: caml_rocksdb_batch_count_def)
  then show "caml_rocksdb_batch_count (snd (caml_rocksdb_batch_put bv k v))
           = caml_rocksdb_batch_count bv + 1"
    using l by (simp add: caml_rocksdb_batch_count_def sint_succ)
  show "pending_ops (snd (caml_rocksdb_batch_put bv k v)) = pending_ops bv @ [BatchPut k v]"
    using l by (simp add: pending_ops_def)
next
  assume a: "fst (caml_rocksdb_batch_delete bv k) = Inr ()
               \<and> caml_rocksdb_batch_count bv < 2147483647"
  then obtain bw b where l: "bv = Some bw" "batch bw = Some b"
    "snd (caml_rocksdb_batch_delete bv k)
       = Some (bw\<lparr>batch := Some (b @ [BatchDelete k]), n_ops := n_ops bw + 1\<rparr>)"
    using delete_live by blast
  from a l have "sint (n_ops bw) < 2147483647"
    by (simp add: caml_rocksdb_batch_count_def)
  then show "caml_rocksdb_batch_count (snd (caml_rocksdb_batch_delete bv k))
           = caml_rocksdb_batch_count bv + 1"
    using l by (simp add: caml_rocksdb_batch_count_def sint_succ)
  show "pending_ops (snd (caml_rocksdb_batch_delete bv k)) = pending_ops bv @ [BatchDelete k]"
    using l by (simp add: pending_ops_def)
next
  assume a: "fst (caml_rocksdb_batch_clear bv) = Inr ()"
  then obtain bw b where l: "bv = Some bw" "batch bw = Some b"
    "snd (caml_rocksdb_batch_clear bv) = Some (bw\<lparr>batch := Some [], n_ops := 0\<rparr>)"
    using clear_live by blast
  show "caml_rocksdb_batch_count (snd (caml_rocksdb_batch_clear bv)) = 0"
    using l by (simp add: caml_rocksdb_batch_count_def)
  show "pending_ops (snd (caml_rocksdb_batch_clear bv)) = []"
    using l by (simp add: pending_ops_def)
  show "fst (caml_rocksdb_batch_put (snd (caml_rocksdb_batch_clear bv)) k v) = Inr ()"
    using l by (simp add: caml_rocksdb_batch_put_def)
next
  assume "length cs \<le> 2147483647"
  then show "caml_rocksdb_batch_count (run_calls new_batch cs)
           = int (length (pending_ops (run_calls new_batch cs)))"
    using run_calls_invariant [of cs]
    by (auto simp: caml_rocksdb_batch_count_def pending_ops_def)
qed

text \<open>A put on a new batch, a delete and a clear on a batch of three, and the sequence
  of three calls that builds that batch.\<close>

theorem batch_count_tracks_pending_witness:
  "fst (caml_rocksdb_batch_put new_batch ''a'' ''1'') = Inr ()
   \<and> caml_rocksdb_batch_count new_batch < 2147483647
   \<and> caml_rocksdb_batch_count (snd (caml_rocksdb_batch_put new_batch ''a'' ''1'')) = 1
   \<and> pending_ops (snd (caml_rocksdb_batch_put new_batch ''a'' ''1'')) = [BatchPut ''a'' ''1'']
   \<and> fst (caml_rocksdb_batch_delete small_batch ''b'') = Inr ()
   \<and> caml_rocksdb_batch_count small_batch < 2147483647
   \<and> caml_rocksdb_batch_count (snd (caml_rocksdb_batch_delete small_batch ''b'')) = 4
   \<and> fst (caml_rocksdb_batch_clear small_batch) = Inr ()
   \<and> caml_rocksdb_batch_count (snd (caml_rocksdb_batch_clear small_batch)) = 0
   \<and> pending_ops (snd (caml_rocksdb_batch_clear small_batch)) = []
   \<and> run_calls new_batch [CallPut ''a'' ''1'', CallPut ''b'' ''2'', CallDelete ''a'']
       = small_batch
   \<and> caml_rocksdb_batch_count small_batch = int (length (pending_ops small_batch))"
proof -
  have p: "fst (caml_rocksdb_batch_put new_batch ''a'' ''1'') = Inr ()"
    by (simp add: caml_rocksdb_batch_put_def new_batch_def)
  have c0: "caml_rocksdb_batch_count new_batch = 0" and p0: "pending_ops new_batch = []"
    using batch_count_tracks_pending by blast+
  have d: "fst (caml_rocksdb_batch_delete small_batch ''b'') = Inr ()"
    by (simp add: caml_rocksdb_batch_delete_def small_batch_def)
  have c3: "caml_rocksdb_batch_count small_batch = 3"
    by (simp add: caml_rocksdb_batch_count_def small_batch_def)
  have c: "fst (caml_rocksdb_batch_clear small_batch) = Inr ()"
    by (simp add: caml_rocksdb_batch_clear_def small_batch_def)
  from p c0 p0 batch_count_tracks_pending [of new_batch "''a''" "''1''"]
  have r1: "caml_rocksdb_batch_count (snd (caml_rocksdb_batch_put new_batch ''a'' ''1'')) = 1
     \<and> pending_ops (snd (caml_rocksdb_batch_put new_batch ''a'' ''1'')) = [BatchPut ''a'' ''1'']"
    by simp
  from d c3 c batch_count_tracks_pending [of small_batch "''b''" "''2''"]
  have r2: "caml_rocksdb_batch_count (snd (caml_rocksdb_batch_delete small_batch ''b'')) = 4
     \<and> caml_rocksdb_batch_count (snd (caml_rocksdb_batch_clear small_batch)) = 0
     \<and> pending_ops (snd (caml_rocksdb_batch_clear small_batch)) = []"
    by simp
  have rc: "run_calls new_batch [CallPut ''a'' ''1'', CallPut ''b'' ''2'', CallDelete ''a'']
       = small_batch"
    by (simp add: run_calls_def new_batch_def small_batch_def caml_rocksdb_batch_put_def
        caml_rocksdb_batch_delete_def rocksdb_writebatch_create_def rocksdb_writebatch_put_def
        rocksdb_writebatch_delete_def)
  from batch_count_tracks_pending
         [where cs = "[CallPut ''a'' ''1'', CallPut ''b'' ''2'', CallDelete ''a'']"]
  have r3: "caml_rocksdb_batch_count small_batch = int (length (pending_ops small_batch))"
    by (simp add: rc)
  show ?thesis
    using p c0 d c3 c r1 r2 rc r3 by simp
qed

text \<open>
  The claim as stated fails at the counter's largest value: a batch with 2147483647
  pending operations shows that count, and one more successful delete leaves 2147483648
  operations pending while the count, a 32-bit integer, has wrapped to -2147483648.
\<close>

theorem batch_count_overflow_counterexample:
  "caml_rocksdb_batch_count full_batch = 2147483647
   \<and> length (pending_ops full_batch) = 2147483647
   \<and> fst (caml_rocksdb_batch_delete full_batch []) = Inr ()
   \<and> caml_rocksdb_batch_count (snd (caml_rocksdb_batch_delete full_batch [])) = - 2147483648
   \<and> length (pending_ops (snd (caml_rocksdb_batch_delete full_batch []))) = 2147483648"
  by (simp add: full_batch_def caml_rocksdb_batch_count_def pending_ops_def
      caml_rocksdb_batch_delete_def rocksdb_writebatch_delete_def)

section \<open>Committing a batch\<close>

text \<open>What a commit that raises and what a commit that returns leave behind.\<close>

lemma batch_write_failure:
  "is_open w \<Longrightarrow> fst (caml_rocksdb_batch_write (Some w) bv) \<noteq> Inr () \<Longrightarrow>
   snd (caml_rocksdb_batch_write (Some w) bv) = Some w"
  by (auto simp: caml_rocksdb_batch_write_def rocksdb_write_def split: option.splits)

lemma batch_write_success:
  "is_open w \<Longrightarrow> fst (caml_rocksdb_batch_write (Some w) bv) = Inr () \<Longrightarrow>
   snd (caml_rocksdb_batch_write (Some w) bv)
     = Some (w\<lparr>db := (db w)\<lparr>contents := (contents (db w))
               (default_cf := foldl apply_op (contents (db w) default_cf) (pending_ops bv))\<rparr>\<rparr>)"
  by (auto simp: caml_rocksdb_batch_write_def rocksdb_write_def pending_ops_def
      split: option.splits)

lemma batch_write_outcome:
  "is_open w \<Longrightarrow>
   fst (caml_rocksdb_batch_write (Some w) bv) = Inr ()
     \<longleftrightarrow> (\<exists>bw b. bv = Some bw \<and> batch bw = Some b) \<and> io_error (db w) = None"
  by (auto simp: caml_rocksdb_batch_write_def rocksdb_write_def split: option.splits)

text \<open>
  Claim C2. On an open database a commit is all or nothing. If the call returns, the
  database holds exactly the result of applying every pending operation of the batch, in
  order, to the default namespace, and a reader of that namespace sees this result for
  every key; all other namespaces are as before. If the call raises, the database is
  exactly as it was, so no reader sees any of the mutations.
\<close>

theorem batch_write_all_or_nothing:
  assumes "is_open w"
  shows "(fst (caml_rocksdb_batch_write (Some w) bv) = Inr () \<longrightarrow>
            snd (caml_rocksdb_batch_write (Some w) bv)
              = Some (w\<lparr>db := (db w)\<lparr>contents := (contents (db w))
                   (default_cf := foldl apply_op (contents (db w) default_cf) (pending_ops bv))\<rparr>\<rparr>)
            \<and> (ro_snapshot (read_options w) = None \<longrightarrow>
                 caml_rocksdb_get (snd (caml_rocksdb_batch_write (Some w) bv)) 0 k
                   = Inr (foldl apply_op (contents (db w) default_cf) (pending_ops bv) k)))
       \<and> (fst (caml_rocksdb_batch_write (Some w) bv) \<noteq> Inr () \<longrightarrow>
            snd (caml_rocksdb_batch_write (Some w) bv) = Some w
            \<and> caml_rocksdb_get (snd (caml_rocksdb_batch_write (Some w) bv)) i k
                = caml_rocksdb_get (Some w) i k)"
proof (intro conjI impI)
  assume ok: "fst (caml_rocksdb_batch_write (Some w) bv) = Inr ()"
  show s: "snd (caml_rocksdb_batch_write (Some w) bv)
              = Some (w\<lparr>db := (db w)\<lparr>contents := (contents (db w))
                   (default_cf := foldl apply_op (contents (db w) default_cf) (pending_ops bv))\<rparr>\<rparr>)"
    using assms ok by (rule batch_write_success)
  assume ro: "ro_snapshot (read_options w) = None"
  from assms ok have "io_error (db w) = None"
    by (simp add: batch_write_outcome)
  with assms ro show "caml_rocksdb_get (snd (caml_rocksdb_batch_write (Some w) bv)) 0 k
                   = Inr (foldl apply_op (contents (db w) default_cf) (pending_ops bv) k)"
    by (simp add: s caml_rocksdb_get_def Let_def Int_val_fits rocksdb_get_def rocksdb_get_cf_def visible_def
        split: option.split)
next
  assume bad: "fst (caml_rocksdb_batch_write (Some w) bv) \<noteq> Inr ()"
  show s: "snd (caml_rocksdb_batch_write (Some w) bv) = Some w"
    using assms bad by (rule batch_write_failure)
  show "caml_rocksdb_get (snd (caml_rocksdb_batch_write (Some w) bv)) i k
                = caml_rocksdb_get (Some w) i k"
    by (simp add: s)
qed

text \<open>The small batch commits on the healthy store: key a ends deleted and key b
  present; on the failing store the commit raises and the store is as before.\<close>

theorem batch_write_all_or_nothing_witness:
  "is_open example_db
   \<and> fst (caml_rocksdb_batch_write (Some example_db) small_batch) = Inr ()
   \<and> ro_snapshot (read_options example_db) = None
   \<and> caml_rocksdb_get (snd (caml_rocksdb_batch_write (Some example_db) small_batch)) 0 ''a''
       = Inr None
   \<and> caml_rocksdb_get (snd (caml_rocksdb_batch_write (Some example_db) small_batch)) 0 ''b''
       = Inr (Some ''2'')
   \<and> is_open failing_db
   \<and> fst (caml_rocksdb_batch_write (Some failing_db) small_batch) \<noteq> Inr ()
   \<and> snd (caml_rocksdb_batch_write (Some failing_db) small_batch) = Some failing_db"
proof -
  have o1: "is_open example_db" and o2: "is_open failing_db"
    by (simp_all add: failing_db_def example_db_def)
  have ro: "ro_snapshot (read_options example_db) = None"
    by (simp add: example_db_def rocksdb_readoptions_create_def)
  have ok: "fst (caml_rocksdb_batch_write (Some example_db) small_batch) = Inr ()"
    using o1 by (simp add: batch_write_outcome small_batch_def example_db_def empty_store_def)
  have bad: "fst (caml_rocksdb_batch_write (Some failing_db) small_batch) \<noteq> Inr ()"
    using o2 by (simp add: batch_write_outcome failing_db_def)
  have p: "pending_ops small_batch = [BatchPut ''a'' ''1'', BatchPut ''b'' ''2'', BatchDelete ''a'']"
    by (simp add: pending_ops_def small_batch_def)
  have e: "contents (db example_db) default_cf = Map.empty"
    by (simp add: example_db_def empty_store_def)
  from batch_write_all_or_nothing [OF o1, of small_batch "''a''" 0] ok ro
  have "caml_rocksdb_get (snd (caml_rocksdb_batch_write (Some example_db) small_batch)) 0 ''a''
       = Inr (foldl apply_op (contents (db example_db) default_cf) (pending_ops small_batch) ''a'')"
    by blast
  then have a:
    "caml_rocksdb_get (snd (caml_rocksdb_batch_write (Some example_db) small_batch)) 0 ''a''
       = Inr None"
    by (simp add: p e)
  from batch_write_all_or_nothing [OF o1, of small_batch "''b''" 0] ok ro
  have "caml_rocksdb_get (snd (caml_rocksdb_batch_write (Some example_db) small_batch)) 0 ''b''
       = Inr (foldl apply_op (contents (db example_db) default_cf) (pending_ops small_batch) ''b'')"
    by blast
  then have b:
    "caml_rocksdb_get (snd (caml_rocksdb_batch_write (Some example_db) small_batch)) 0 ''b''
       = Inr (Some ''2'')"
    by (simp add: p e)
  from batch_write_all_or_nothing [OF o2, of small_batch "''a''" 0] bad
  have c: "snd (caml_rocksdb_batch_write (Some failing_db) small_batch) = Some failing_db"
    by blast
  show ?thesis
    using o1 o2 ro ok bad a b c by blast
qed

section \<open>Opening a database\<close>

text \<open>The creation loop returns one handle for each name it was given.\<close>

lemma length_create_column_families:
  "length (snd (create_column_families env d opts names)) = length names"
  by (induction names arbitrary: d) (simp_all add: case_prod_beta Let_def)

text \<open>The names the loop visits are the seven after the default one.\<close>

lemma drop_cf_names:
  "drop 1 cf_names =
     [''nodes'', ''links'', ''incoming'', ''outgoing'', ''attention'', ''truth_values'',
      ''metadata'']"
  by (simp add: cf_names_def)

text \<open>
  Claim C4, as it holds of the bindings. Open first asks the engine to open the store at
  the path (taken as a C string) with the full registry of eight names, and on success
  wraps the store and the eight handles the engine returned. If that attempt fails, it
  falls back to a plain open of the store and then attempts to create each of the seven
  namespaces after the default one, in registry order, keeping the handle each attempt
  returns and ignoring its error, so the fallback succeeds whatever the creations did; the
  default namespace is not created and its slot stays null. If the plain open fails too,
  open raises an error made of \<^verbatim>\<open>rocksdb_open failed: \<close> and the cause the engine gave for
  that second attempt. If the wrapper cannot be allocated after either attempt succeeded,
  open raises its allocation error. Whenever open raises, the caller gets the message and
  no handle; a handle that is returned is open, with eight registered slots, the path and
  the options it was opened with.
\<close>

theorem open_two_phase:
  "(rocksdb_open_column_families env (open_options cim ct) (c_string p) 8 cf_names
        (replicate 8 rocksdb_options_create) = Inr (d, hs) \<and> malloc_ok env \<longrightarrow>
      caml_rocksdb_open env p cim ct =
        Inr (Some \<lparr>db = d, options = open_options cim ct,
                    write_options = rocksdb_writeoptions_create,
                    read_options = rocksdb_readoptions_create,
                    cf_handles = (\<lambda>i. if i < 8 then hs i else None),
                    n_cf = 8, path = c_string p, is_open = True\<rparr>))
   \<and> (rocksdb_open_column_families env (open_options cim ct) (c_string p) 8 cf_names
        (replicate 8 rocksdb_options_create) = Inl e1
       \<and> rocksdb_open env (open_options cim ct) (c_string p) = Inr d \<and> malloc_ok env \<longrightarrow>
      caml_rocksdb_open env p cim ct =
        Inr (Some \<lparr>db = fst (create_column_families env d (open_options cim ct) (drop 1 cf_names)),
                    options = open_options cim ct,
                    write_options = rocksdb_writeoptions_create,
                    read_options = rocksdb_readoptions_create,
                    cf_handles =
                      (\<lambda>i. if i < 8
                            then (None # snd (create_column_families env d (open_options cim ct)
                                               (drop 1 cf_names))) ! i
                            else None),
                    n_cf = 8, path = c_string p, is_open = True\<rparr>)
      \<and> length (snd (create_column_families env d (open_options cim ct) (drop 1 cf_names))) = 7)
   \<and> (rocksdb_open_column_families env (open_options cim ct) (c_string p) 8 cf_names
        (replicate 8 rocksdb_options_create) = Inl e1
       \<and> rocksdb_open env (open_options cim ct) (c_string p) = Inl e2 \<longrightarrow>
      caml_rocksdb_open env p cim ct = Inl (snprintf_msg ''rocksdb_open failed: '' e2))
   \<and> (\<not> malloc_ok env
       \<and> (rocksdb_open_column_families env (open_options cim ct) (c_string p) 8 cf_names
             (replicate 8 rocksdb_options_create) = Inr (d, hs)
            \<or> rocksdb_open_column_families env (open_options cim ct) (c_string p) 8 cf_names
                 (replicate 8 rocksdb_options_create) = Inl e1
               \<and> rocksdb_open env (open_options cim ct) (c_string p) = Inr d) \<longrightarrow>
      caml_rocksdb_open env p cim ct = Inl ''rocksdb_open: failed to allocate wrapper'')
   \<and> (caml_rocksdb_open env p cim ct = Inr h \<longrightarrow>
        (\<exists>w. h = Some w \<and> is_open w \<and> n_cf w = 8 \<and> path w = c_string p
              \<and> options w = open_options cim ct))"
proof (intro conjI impI)
  assume "rocksdb_open_column_families env (open_options cim ct) (c_string p) 8 cf_names
        (replicate 8 rocksdb_options_create) = Inr (d, hs) \<and> malloc_ok env"
  then show "caml_rocksdb_open env p cim ct =
        Inr (Some \<lparr>db = d, options = open_options cim ct,
                    write_options = rocksdb_writeoptions_create,
                    read_options = rocksdb_readoptions_create,
                    cf_handles = (\<lambda>i. if i < 8 then hs i else None),
                    n_cf = 8, path = c_string p, is_open = True\<rparr>)"
    by (simp add: caml_rocksdb_open_def Let_def)
next
  assume a: "rocksdb_open_column_families env (open_options cim ct) (c_string p) 8 cf_names
        (replicate 8 rocksdb_options_create) = Inl e1
       \<and> rocksdb_open env (open_options cim ct) (c_string p) = Inr d \<and> malloc_ok env"
  then show "caml_rocksdb_open env p cim ct =
        Inr (Some \<lparr>db = fst (create_column_families env d (open_options cim ct) (drop 1 cf_names)),
                    options = open_options cim ct,
                    write_options = rocksdb_writeoptions_create,
                    read_options = rocksdb_readoptions_create,
                    cf_handles =
                      (\<lambda>i. if i < 8
                            then (None # snd (create_column_families env d (open_options cim ct)
                                               (drop 1 cf_names))) ! i
                            else None),
                    n_cf = 8, path = c_string p, is_open = True\<rparr>)"
    by (simp add: caml_rocksdb_open_def Let_def case_prod_beta cong: if_cong)
  have "length (drop 1 cf_names) = 7"
    by (simp add: cf_names_def)
  then show "length (snd (create_column_families env d (open_options cim ct) (drop 1 cf_names))) = 7"
    by (simp only: length_create_column_families)
next
  assume "rocksdb_open_column_families env (open_options cim ct) (c_string p) 8 cf_names
        (replicate 8 rocksdb_options_create) = Inl e1
       \<and> rocksdb_open env (open_options cim ct) (c_string p) = Inl e2"
  then show "caml_rocksdb_open env p cim ct = Inl (snprintf_msg ''rocksdb_open failed: '' e2)"
    by (simp add: caml_rocksdb_open_def Let_def)
next
  assume "\<not> malloc_ok env
       \<and> (rocksdb_open_column_families env (open_options cim ct) (c_string p) 8 cf_names
             (replicate 8 rocksdb_options_create) = Inr (d, hs)
            \<or> rocksdb_open_column_families env (open_options cim ct) (c_string p) 8 cf_names
                 (replicate 8 rocksdb_options_create) = Inl e1
               \<and> rocksdb_open env (open_options cim ct) (c_string p) = Inr d)"
  then show "caml_rocksdb_open env p cim ct = Inl ''rocksdb_open: failed to allocate wrapper''"
    by (auto simp: caml_rocksdb_open_def Let_def case_prod_beta)
next
  assume "caml_rocksdb_open env p cim ct = Inr h"
  then show "\<exists>w. h = Some w \<and> is_open w \<and> n_cf w = 8 \<and> path w = c_string p
              \<and> options w = open_options cim ct"
    by (auto simp: caml_rocksdb_open_def Let_def split: sum.splits prod.splits if_splits)
qed

text \<open>An existing store opens at the first attempt; a new path opens through the
  fallback, also when the engine refuses every creation; a path that cannot be opened
  yields the second attempt's cause and no handle; a failed allocation yields its error.\<close>

theorem open_two_phase_witness:
  "caml_rocksdb_open existing_env ''/tmp/atomspace'' True 0 = Inr (Some example_db)
   \<and> is_open example_db
   \<and> (case caml_rocksdb_open new_path_env ''/tmp/atomspace'' True 0 of
         Inr (Some w) \<Rightarrow> cf_handles w 0 = None \<and> cf_handles w 1 = Some 1
                          \<and> cf_handles w 7 = Some 7 \<and> is_open w
       | _ \<Rightarrow> False)
   \<and> (case caml_rocksdb_open no_create_env ''/tmp/atomspace'' True 0 of
         Inr (Some w) \<Rightarrow> cf_handles w 0 = None \<and> cf_handles w 1 = None
                          \<and> cf_handles w 7 = None \<and> is_open w
       | _ \<Rightarrow> False)
   \<and> caml_rocksdb_open locked_env ''/tmp/atomspace'' True 0
       = Inl ''rocksdb_open failed: IO error: lock hold by current process''
   \<and> \<not> malloc_ok (new_path_env\<lparr>malloc_ok := False\<rparr>)
   \<and> caml_rocksdb_open (new_path_env\<lparr>malloc_ok := False\<rparr>) ''/tmp/atomspace'' True 0
       = Inl ''rocksdb_open: failed to allocate wrapper''"
proof -
  have cs: "c_string ''/tmp/atomspace'' = ''/tmp/atomspace''"
    by (simp add: c_string_def)
  have e: "rocksdb_open_column_families existing_env (open_options True 0)
             (c_string ''/tmp/atomspace'') 8 cf_names (replicate 8 rocksdb_options_create)
           = Inr (empty_store\<lparr>families := cf_names\<rparr>, \<lambda>i. if i < 8 then Some i else None)
           \<and> malloc_ok existing_env"
    by (simp add: existing_env_def)
  have x: "(\<lambda>i::nat. if i < 8 then if i < 8 then Some i else None else None)
             = (\<lambda>i. if i < 8 then Some i else None)"
    by auto
  from e open_two_phase [where env = existing_env and cim = True and ct = 0
      and p = "''/tmp/atomspace''" and d = "empty_store\<lparr>families := cf_names\<rparr>"
      and hs = "\<lambda>i. if i < 8 then Some i else None"]
  have a: "caml_rocksdb_open existing_env ''/tmp/atomspace'' True 0 = Inr (Some example_db)"
    by (simp add: example_db_def x cs)
  from a open_two_phase [where env = existing_env and cim = True and ct = 0
      and p = "''/tmp/atomspace''" and h = "Some example_db"]
  have o: "is_open example_db"
    by simp
  have n: "rocksdb_open_column_families new_path_env (open_options True 0)
             (c_string ''/tmp/atomspace'') 8 cf_names (replicate 8 rocksdb_options_create)
           = Inl ''Invalid argument: Column families not opened''
           \<and> rocksdb_open new_path_env (open_options True 0) (c_string ''/tmp/atomspace'')
               = Inr empty_store
           \<and> malloc_ok new_path_env"
    by (simp add: new_path_env_def open_options_def Int_val_fits rocksdb_options_create_def)
  have cc: "snd (create_column_families new_path_env empty_store (open_options True 0)
                  (drop (Suc 0) cf_names))
            = [Some 1, Some 2, Some 3, Some 4, Some 5, Some 6, Some 7]"
    by (simp add: cf_names_def new_path_env_def empty_store_def Let_def)
  from n open_two_phase [where env = new_path_env and cim = True and ct = 0
      and p = "''/tmp/atomspace''" and d = empty_store
      and ?e1.0 = "''Invalid argument: Column families not opened''"]
  have b: "(case caml_rocksdb_open new_path_env ''/tmp/atomspace'' True 0 of
         Inr (Some w) \<Rightarrow> cf_handles w 0 = None \<and> cf_handles w 1 = Some 1
                          \<and> cf_handles w 7 = Some 7 \<and> is_open w
       | _ \<Rightarrow> False)"
    by (simp add: cc)
  have n2: "rocksdb_open_column_families no_create_env (open_options True 0)
             (c_string ''/tmp/atomspace'') 8 cf_names (replicate 8 rocksdb_options_create)
           = Inl ''Invalid argument: Column families not opened''
           \<and> rocksdb_open no_create_env (open_options True 0) (c_string ''/tmp/atomspace'')
               = Inr empty_store
           \<and> malloc_ok no_create_env"
    by (simp add: no_create_env_def new_path_env_def open_options_def Int_val_fits
        rocksdb_options_create_def)
  have cc2: "snd (create_column_families no_create_env empty_store (open_options True 0)
                  (drop (Suc 0) cf_names))
            = [None, None, None, None, None, None, None]"
    by (simp add: cf_names_def no_create_env_def new_path_env_def Let_def)
  from n2 open_two_phase [where env = no_create_env and cim = True and ct = 0
      and p = "''/tmp/atomspace''" and d = empty_store
      and ?e1.0 = "''Invalid argument: Column families not opened''"]
  have b2: "(case caml_rocksdb_open no_create_env ''/tmp/atomspace'' True 0 of
         Inr (Some w) \<Rightarrow> cf_handles w 0 = None \<and> cf_handles w 1 = None
                          \<and> cf_handles w 7 = None \<and> is_open w
       | _ \<Rightarrow> False)"
    by (simp add: cc2)
  have l: "rocksdb_open_column_families locked_env (open_options True 0)
             (c_string ''/tmp/atomspace'') 8 cf_names (replicate 8 rocksdb_options_create)
           = Inl ''IO error: lock held''
           \<and> rocksdb_open locked_env (open_options True 0) (c_string ''/tmp/atomspace'')
               = Inl ''IO error: lock hold by current process''"
    by (simp add: locked_env_def)
  from l open_two_phase [where env = locked_env and cim = True and ct = 0
      and p = "''/tmp/atomspace''" and ?e1.0 = "''IO error: lock held''"
      and ?e2.0 = "''IO error: lock hold by current process''"]
  have c: "caml_rocksdb_open locked_env ''/tmp/atomspace'' True 0
       = Inl ''rocksdb_open failed: IO error: lock hold by current process''"
    by (simp add: snprintf_msg_def)
  have m: "\<not> malloc_ok (new_path_env\<lparr>malloc_ok := False\<rparr>)"
    by simp
  have n': "rocksdb_open_column_families (new_path_env\<lparr>malloc_ok := False\<rparr>)
              (open_options True 0) (c_string ''/tmp/atomspace'') 8 cf_names
              (replicate 8 rocksdb_options_create)
            = Inl ''Invalid argument: Column families not opened''
           \<and> rocksdb_open (new_path_env\<lparr>malloc_ok := False\<rparr>) (open_options True 0)
               (c_string ''/tmp/atomspace'') = Inr empty_store"
    by (simp add: new_path_env_def open_options_def Int_val_fits rocksdb_options_create_def)
  from m n' open_two_phase [where env = "new_path_env\<lparr>malloc_ok := False\<rparr>" and cim = True
      and ct = 0 and p = "''/tmp/atomspace''" and d = empty_store
      and ?e1.0 = "''Invalid argument: Column families not opened''"]
  have f: "caml_rocksdb_open (new_path_env\<lparr>malloc_ok := False\<rparr>) ''/tmp/atomspace'' True 0
       = Inl ''rocksdb_open: failed to allocate wrapper''"
    by blast
  show ?thesis
    using a o b b2 c m f by blast
qed

text \<open>
  The claim as stated fails on a brand-new path in two ways. Where the engine refuses to
  create column families, the fallback still succeeds: open returns an open handle whose
  eight slots are all null, over a store that holds the default namespace only, so not
  every well-known namespace was created. Where the engine creates what it is asked to,
  the loop asks for seven namespaces, not eight: it returns seven handles, for the names
  after the default one, and slot 0 of the wrapper is null.
\<close>

theorem open_fallback_counterexample:
  "(case caml_rocksdb_open no_create_env ''/tmp/atomspace'' True 0 of
      Inr (Some w) \<Rightarrow>
        is_open w
        \<and> map (cf_handles w) [0, 1, 2, 3, 4, 5, 6, 7]
            = [None, None, None, None, None, None, None, None]
        \<and> families (db w) = [''default'']
    | _ \<Rightarrow> False)
   \<and> length cf_names = 8
   \<and> snd (create_column_families new_path_env empty_store (open_options True 0)
            (drop 1 cf_names))
       = [Some 1, Some 2, Some 3, Some 4, Some 5, Some 6, Some 7]
   \<and> (case caml_rocksdb_open new_path_env ''/tmp/atomspace'' True 0 of
         Inr (Some w) \<Rightarrow>
           map (cf_handles w) [0, 1, 2, 3, 4, 5, 6, 7]
             = [None, Some 1, Some 2, Some 3, Some 4, Some 5, Some 6, Some 7]
           \<and> families (db w) = cf_names
       | _ \<Rightarrow> False)"
  by (simp add: caml_rocksdb_open_def c_string_def no_create_env_def new_path_env_def
      open_options_def Int_val_fits rocksdb_options_create_def empty_store_def cf_names_def
      Let_def)

section \<open>Snapshots and reads\<close>

text \<open>
  No entry point of the bindings takes a snapshot besides release: \<^verbatim>\<open>caml_rocksdb_get\<close>,
  \<^verbatim>\<open>caml_rocksdb_exists\<close> and \<^verbatim>\<open>caml_rocksdb_iter_create\<close> read with the read options of
  the database wrapper. Those are created at open, bound to no snapshot, and no operation
  changes them.
\<close>

lemma open_binds_no_snapshot:
  "caml_rocksdb_open env p cim ct = Inr (Some w) \<Longrightarrow> ro_snapshot (read_options w) = None"
  by (auto simp: caml_rocksdb_open_def c_string_def Let_def rocksdb_readoptions_create_def
      split: sum.splits prod.splits if_splits)

lemma writes_keep_read_options:
  "map_option read_options (snd (caml_rocksdb_put dbv i k v)) = map_option read_options dbv"
  "map_option read_options (snd (caml_rocksdb_delete dbv i k)) = map_option read_options dbv"
  "map_option read_options (snd (caml_rocksdb_batch_write dbv bv)) = map_option read_options dbv"
  "map_option read_options (snd (caml_rocksdb_compact_range dbv i)) = map_option read_options dbv"
  "map_option read_options (snd (caml_rocksdb_flush dbv)) = map_option read_options dbv"
  by (simp_all add: caml_rocksdb_put_def Let_def Int_val_fits caml_rocksdb_delete_def caml_rocksdb_batch_write_def
      caml_rocksdb_compact_range_def caml_rocksdb_flush_def case_prod_beta
      split: option.split)

text \<open>So a read that follows a successful put returns the value just written, whatever
  snapshots have been taken in between.\<close>

lemma get_after_put:
  assumes "is_open w" and "ro_snapshot (read_options w) = None"
    and "fst (caml_rocksdb_put (Some w) i k v) = Inr ()"
  shows "caml_rocksdb_get (snd (caml_rocksdb_put (Some w) i k v)) i k = Inr (Some v)"
proof -
  from assms(1,3) have ok: "io_error (db w) = None"
    by (cases "io_error (db w)")
       (auto simp: caml_rocksdb_put_def Let_def Int_val_fits rocksdb_put_def rocksdb_put_cf_def split: if_splits)
  show ?thesis
  proof (cases "0 < Int_val i \<and> Int_val i < n_cf w
                  \<and> cf_handles w (nat (Int_val i)) \<noteq> None")
    case True
    with assms(1,2) ok show ?thesis
      by (simp add: caml_rocksdb_put_def Let_def Int_val_fits caml_rocksdb_get_def rocksdb_put_cf_def
          rocksdb_get_cf_def visible_def)
  next
    case False
    with assms(1,2) ok show ?thesis
      by (auto simp: caml_rocksdb_put_def Let_def Int_val_fits caml_rocksdb_get_def rocksdb_put_def rocksdb_put_cf_def
          rocksdb_get_def rocksdb_get_cf_def visible_def)
  qed
qed

end
